theory Spec2Isabelle
  imports Complex_Main "HOL-Library.AList"
begin

section \<open>Data model of \<open>src/app/page.tsx\<close>\<close>

text \<open>
  The page component \<open>Home\<close> orchestrates conversation turns. Its handlers are
  \<open>async\<close> closures over three stores (messages, settings, plugins) and some React
  state. Each handler is modelled as a function on an explicit \<open>state\<close> record; the
  answers of awaited external calls (the model API, the plugin gateway) come from a
  \<open>world\<close> record, indexed by the handler's count of waits so far. The handlers are
  started without being awaited, so while one of them waits the others go on: what they
  then do to the state is the world's \<open>meanwhile\<close>.
\<close>

datatype json = JNull | JBool bool | JNum int | JStr string
  | JArr "json list" | JObj "(string \<times> json) list"

datatype role = User | Model | Function

record FunctionCall =
  call_name :: string
  call_args :: "(string \<times> json) list"

record FileInfor =
  file_preview :: "string option"
  file_mimeType :: string
  file_metadata :: "(string \<times> string) option"
  file_status :: string

datatype part =
    PText string
  | PInlineData string "string option"
  | PFileData string string
  | PFunctionCall FunctionCall
  | PFunctionResponse string string json

record Message =
  msg_id :: string
  role :: role
  parts :: "part list"
  attachments :: "FileInfor list option"

record Summary =
  summary_ids :: "string list"
  summary_content :: string

record GenerationConfig =
  topP :: real
  topK :: int
  temperature :: real
  maxOutputTokens :: int

record Tool =
  functionDeclarations :: "json list"

record RequestProps =
  req_messages :: "Message list"
  req_apiKey :: string
  req_model :: string
  req_generationConfig :: GenerationConfig
  req_safety :: string
  req_systemInstruction :: "string option"
  req_tools :: "Tool list option"
  req_baseUrl :: "string option"

record Chunk =
  chunk_functionCalls :: "FunctionCall list option"
  chunk_text :: string

type_synonym bytes = "nat list"

record GatewayPayload =
  baseUrl :: string
  http_method :: string
  formData :: "(string \<times> json) list option"
  headers :: "(string \<times> json) list option"
  path :: "(string \<times> json) list option"
  query :: "(string \<times> json) list option"
  cookie :: "(string \<times> json) list option"

record Parameter =
  param_name :: string
  param_in :: string

record Operation =
  op_path :: string
  op_method :: string
  op_parameters :: "Parameter list option"

record Server =
  url :: string

record OpenAPI =
  servers :: "Server list option"
  operations :: "(string \<times> Operation) list"

record PluginManifest =
  openapi :: OpenAPI

record settings =
  apiKey :: string
  apiProxy :: string
  password :: string
  generation :: GenerationConfig
  safety :: string
  talkMode :: string
  model :: string
  maxHistoryLength :: int
  ttsVoice :: string

record plugins =
  tools :: "json list"
  installed :: "string \<rightharpoonup> PluginManifest"

datatype thrown = ErrorObj string | NonError

datatype chat_result = ChatStream "Chunk list" | ChatThrows thrown

datatype gateway_result = FetchFailed thrown | JsonFailed thrown | Responded json

text \<open>
  Helpers that the page imports from modules outside \<open>src/\<close> and that only pass
  data through are parameters: the token signer, the text encoder, the prompt builders,
  the id generator (\<open>nanoid\<close>, here the \<open>n\<close>-th id drawn) and the list of old
  vision models; so is the built-in \<open>String.prototype.trim\<close>.
\<close>

record externals =
  encodeToken :: "string \<Rightarrow> string"
  encode :: "string \<Rightarrow> bytes"
  nanoid_at :: "nat \<Rightarrow> string"
  getTalkAudioPrompt :: "Message list \<Rightarrow> Message list"
  getVoiceModelPrompt :: "Message list \<Rightarrow> Message list"
  getSummaryPrompt :: "string \<Rightarrow> Message list"
  summarizePrompt :: "Message list \<Rightarrow> string list \<Rightarrow> string \<Rightarrow> string list \<times> string"
  streamToText :: "bytes list \<Rightarrow> string"
  trim :: "string \<Rightarrow> string"
  OldVisionModel :: "string list"

datatype status = Thinkng | Silence | Talking

datatype event =
    ChatCall RequestProps
  | GatewayCall string GatewayPayload
  | Added Message
  | Revoked string
  | SpeechCreate string string
  | AudioPlay bytes string
  | SiriWave real real

record state =
  messages :: "Message list"
  summary :: Summary
  systemInstruction :: string
  files :: "FileInfor list"
  content :: string
  message :: string
  subtitle :: string
  errorMessage :: string
  speechSilence :: bool
  status :: status
  textareaHeight :: nat
  speechQueue :: "string list option"
  audio :: "(bytes \<times> string) option"
  responding :: "(bytes list \<times> Summary) list"
  summarizing :: "(string list \<times> bytes list) list"
  dispatching :: "(FunctionCall \<times> Message \<times> string \<times> GatewayPayload \<times> FunctionCall list) list"
  seed :: nat
  clock :: nat
  events :: "event list"

record world =
  chat :: "nat \<Rightarrow> RequestProps \<Rightarrow> chat_result"
  gateway :: "nat \<Rightarrow> string \<Rightarrow> GatewayPayload \<Rightarrow> gateway_result"
  meanwhile :: "nat \<Rightarrow> state \<Rightarrow> state"

text \<open>
  A handler that waits leaves the program to the others. \<open>events\<close> and \<open>clock\<close>
  are the handler's own record of what it did and its own count of waits: a wait counts
  one more and leaves the record as it is, whatever else the others have done to the
  state.
\<close>

definition await_others :: "world \<Rightarrow> state \<Rightarrow> state" where
  "await_others w s =
     (meanwhile w (clock s) s)\<lparr> clock := Suc (clock s), events := events s \<rparr>"

section \<open>Issuing a turn: \<open>fetchAnswer\<close>\<close>

text \<open>
  The request configuration of \<open>fetchAnswer\<close> (lines 161--179). A JavaScript string
  is truthy when it is not empty.
\<close>

definition fetchAnswer_config ::
  "externals \<Rightarrow> settings \<Rightarrow> plugins \<Rightarrow> string \<Rightarrow> Message list \<Rightarrow> string \<Rightarrow> RequestProps" where
  "fetchAnswer_config ext st pl sysInstr msgs mdl =
     (let config = \<lparr> req_messages = msgs, req_apiKey = apiKey st, req_model = mdl,
                      req_generationConfig = generation st, req_safety = safety st,
                      req_systemInstruction = None, req_tools = None, req_baseUrl = None \<rparr>;
          config = (if sysInstr \<noteq> [] then config\<lparr> req_systemInstruction := Some sysInstr \<rparr>
                    else config);
          config = (if length (tools pl) > 0 then config\<lparr> req_tools := Some [\<lparr> functionDeclarations = tools pl \<rparr>] \<rparr>
                    else config)
      in if apiKey st \<noteq> []
         then (if apiProxy st \<noteq> [] then config\<lparr> req_baseUrl := Some (apiProxy st) \<rparr>
               else config)
         else config\<lparr> req_apiKey := encodeToken ext (password st),
                       req_baseUrl := Some ''/api/google'' \<rparr>)"

text \<open>
  The body of the \<open>ReadableStream\<close> (lines 183--196): what each chunk of the model
  stream emits, in arrival order. A chunk whose \<open>functionCalls()\<close> is defined goes to
  the callback, when the caller passed one; any other chunk has its text encoded and
  enqueued.
\<close>

datatype emitted = Enqueue bytes | OnFunctionCall "FunctionCall list"

fun start :: "(string \<Rightarrow> bytes) \<Rightarrow> bool \<Rightarrow> Chunk list \<Rightarrow> emitted list" where
  "start enc hasCallback [] = []"
| "start enc hasCallback (chunk # rest) =
     (case chunk_functionCalls chunk of
        Some calls \<Rightarrow>
          (if hasCallback then [OnFunctionCall calls] else []) @ start enc hasCallback rest
      | None \<Rightarrow> Enqueue (enc (chunk_text chunk)) # start enc hasCallback rest)"

fun enqueued :: "emitted list \<Rightarrow> bytes list" where
  "enqueued [] = []"
| "enqueued (Enqueue b # es) = b # enqueued es"
| "enqueued (OnFunctionCall c # es) = enqueued es"

fun forwarded :: "emitted list \<Rightarrow> FunctionCall list list" where
  "forwarded [] = []"
| "forwarded (Enqueue b # es) = forwarded es"
| "forwarded (OnFunctionCall c # es) = c # forwarded es"

section \<open>The message store and the error path\<close>

text \<open>
  Modelled from the spec: \<open>add\<close> and \<open>revoke\<close> of the message store
  (\<open>@/store/chat\<close>), which is not under \<open>src/\<close>. The spec has the conversation
  log ordered and appended to, and a revoked message discarded from it (regenerating from
  a message "removes exactly" it). \<open>messagesRef.current\<close> is kept equal to the store's
  list by a subscription (line 635), so one field stands for both. Each store operation is
  also recorded in \<open>events\<close>.
\<close>

fun remove_id :: "string \<Rightarrow> Message list \<Rightarrow> Message list" where
  "remove_id i [] = []"
| "remove_id i (m # ms) = (if msg_id m = i then ms else m # remove_id i ms)"

definition addMessage :: "Message \<Rightarrow> state \<Rightarrow> state" where
  "addMessage m s = s\<lparr> messages := messages s @ [m], events := events s @ [Added m] \<rparr>"

definition revoke :: "string \<Rightarrow> state \<Rightarrow> state" where
  "revoke i s = s\<lparr> messages := remove_id i (messages s), events := events s @ [Revoked i] \<rparr>"

text \<open>\<open>nanoid()\<close> draws the next id.\<close>

definition nanoid :: "externals \<Rightarrow> state \<Rightarrow> string \<times> state" where
  "nanoid ext s = (nanoid_at ext (seed s), s\<lparr> seed := Suc (seed s) \<rparr>)"

fun string_of_nat :: "nat \<Rightarrow> string" where
  "string_of_nat n =
     (if n < 10 then [''0123456789'' ! n]
      else string_of_nat (n div 10) @ [''0123456789'' ! (n mod 10)])"

declare string_of_nat.simps [simp del]

text \<open>\<open>handleError\<close> (lines 222--231).\<close>

definition handleError :: "string \<Rightarrow> nat option \<Rightarrow> state \<Rightarrow> state" where
  "handleError msg code s =
     (if messages s = [] then s
      else (let lastMessage = last (messages s)
            in if role lastMessage = Model
               then (revoke (msg_id lastMessage) s)
                      \<lparr> status := Silence,
                        errorMessage :=
                          (case code of None \<Rightarrow> ''400'' | Some c \<Rightarrow> string_of_nat c)
                            @ '': '' @ msg \<rparr>
               else s))"

text \<open>
  \<open>handleResponse\<close> (lines 233--282) runs in two parts. What it does before it awaits
  the text stream is \<open>handleResponse_start\<close>: it reads the summary, makes a fresh speech
  queue and lowers the silence flag; the stream it was given is kept in \<open>responding\<close>
  with the summary it read, since the stream is consumed later.
\<close>

definition handleResponse_start :: "bytes list \<Rightarrow> state \<Rightarrow> state" where
  "handleResponse_start data s =
     s\<lparr> speechQueue := Some [], speechSilence := False,
        responding := responding s @ [(data, summary s)] \<rparr>"

text \<open>
  \<open>fetchAnswer\<close> (lines 160--204). The caller's callbacks are state transformers; the
  function-call callback and the error callback are optional. The request is made, and
  the others run while its answer is awaited (line 181). \<open>onResponse\<close> is called with
  the stream before any chunk is read; the function-call batches follow in arrival
  order, each after a wait for its chunk (line 185).
\<close>

definition fetchAnswer ::
  "externals \<Rightarrow> world \<Rightarrow> settings \<Rightarrow> plugins \<Rightarrow> Message list \<Rightarrow> string \<Rightarrow>
   (bytes list \<Rightarrow> state \<Rightarrow> state) \<Rightarrow> (FunctionCall list \<Rightarrow> state \<Rightarrow> state) option \<Rightarrow>
   (string \<Rightarrow> nat option \<Rightarrow> state \<Rightarrow> state) option \<Rightarrow> state \<Rightarrow> state" where
  "fetchAnswer ext w st pl msgs mdl onResponse onFunctionCall onError s0 =
     (let s = s0\<lparr> errorMessage := [] \<rparr>;
          config = fetchAnswer_config ext st pl (systemInstruction s) msgs mdl;
          answer = chat w (clock s) config;
          s = await_others w (s\<lparr> events := events s @ [ChatCall config] \<rparr>)
      in case answer of
           ChatThrows (ErrorObj m) \<Rightarrow> (case onError of Some f \<Rightarrow> f m None s | None \<Rightarrow> s)
         | ChatThrows NonError \<Rightarrow> s
         | ChatStream chunks \<Rightarrow>
             (let out = start (encode ext) (onFunctionCall \<noteq> None) chunks;
                  s = onResponse (enqueued out) s
              in fold (\<lambda>calls s. case onFunctionCall of
                                    Some f \<Rightarrow> f calls (await_others w s)
                                  | None \<Rightarrow> s)
                      (forwarded out) s))"

section \<open>Speech\<close>

text \<open>
  The task that \<open>speech\<close> enqueues (lines 123--150) is a promise executor. Calling
  \<open>reject\<close> or \<open>resolve\<close> settles the promise once, the first call wins, and neither
  leaves the executor: the statements after it still run.
\<close>

datatype settled = Resolved | Rejected

definition settle :: "settled \<Rightarrow> settled option \<Rightarrow> settled option" where
  "settle r p = (case p of None \<Rightarrow> Some r | Some x \<Rightarrow> Some x)"

record devices =
  edgeSpeech :: "(string \<Rightarrow> string \<Rightarrow> bytes option) option"
  audioStream :: bool
  siriWave :: bool
  isSafari :: bool

definition speech_task ::
  "devices \<Rightarrow> settings \<Rightarrow> bool \<Rightarrow> string \<Rightarrow> state \<Rightarrow> settled option \<times> state" where
  "speech_task dev st silence text s =
     (let p = (if silence then settle Rejected None else None)
      in case edgeSpeech dev of
           None \<Rightarrow> (p, s)
         | Some create \<Rightarrow>
             (let s = s\<lparr> events := events s @ [SpeechCreate text (ttsVoice st)] \<rparr>
              in case create text (ttsVoice st) of
                   None \<Rightarrow> (p, s)
                 | Some buf \<Rightarrow>
                     (let s = s\<lparr> status := Talking \<rparr>;
                          s = (if siriWave dev
                               then s\<lparr> events := events s
                                       @ [SiriWave (if isSafari dev then 0.1 else 0.05) 2] \<rparr>
                               else s);
                          s = (if audioStream dev
                               then s\<lparr> audio := Some (buf, text),
                                       events := events s @ [AudioPlay buf text] \<rparr>
                               else s)
                      in (settle Resolved p, s))))"

text \<open>
  \<open>handleStopTalking\<close> (lines 563--568). Modelled from the spec: \<open>empty\<close> of the
  promise queue drops the tasks not yet started, \<open>stop\<close> of the audio stream ends the
  active buffer; both classes are outside \<open>src/\<close>.
\<close>

definition handleStopTalking :: "state \<Rightarrow> state" where
  "handleStopTalking s =
     s\<lparr> speechSilence := True,
        speechQueue := (case speechQueue s of None \<Rightarrow> None | Some q \<Rightarrow> Some []),
        audio := None,
        status := Silence \<rparr>"

section \<open>The function-call dispatcher\<close>

text \<open>
  Modelled from the spec: \<open>findOperationById\<close> of \<open>@/utils/plugin\<close>, which is not
  under \<open>src/\<close>. The spec has a manifest's operations keyed by id; the lookup returns
  the operation with its path, method and declared parameters, or nothing.
\<close>

definition findOperationById :: "OpenAPI \<Rightarrow> string \<Rightarrow> Operation option" where
  "findOperationById doc operationId = map_of (operations doc) operationId"

text \<open>
  The five maps that the argument loop fills (lines 316--338), each a JavaScript object:
  assigning a key that is present overwrites its value, a new key goes to the end.
\<close>

record maps =
  formData_map :: "(string \<times> json) list"
  headers_map :: "(string \<times> json) list"
  path_map :: "(string \<times> json) list"
  query_map :: "(string \<times> json) list"
  cookie_map :: "(string \<times> json) list"

definition empty_maps :: maps where
  "empty_maps = \<lparr> formData_map = [], headers_map = [], path_map = [], query_map = [],
                   cookie_map = [] \<rparr>"

definition place :: "string \<Rightarrow> json \<Rightarrow> Parameter \<Rightarrow> maps \<Rightarrow> maps" where
  "place name v parameter m =
     (if param_name parameter = name
      then (if param_in parameter = ''query''
            then m\<lparr> query_map := AList.update name v (query_map m) \<rparr>
            else if param_in parameter = ''path''
            then m\<lparr> path_map := AList.update name v (path_map m) \<rparr>
            else if param_in parameter = ''formData''
            then m\<lparr> formData_map := AList.update name v (formData_map m) \<rparr>
            else if param_in parameter = ''headers''
            then m\<lparr> headers_map := AList.update name v (headers_map m) \<rparr>
            else if param_in parameter = ''cookie''
            then m\<lparr> cookie_map := AList.update name v (cookie_map m) \<rparr>
            else m)
      else m)"

definition classify_args :: "Parameter list option \<Rightarrow> (string \<times> json) list \<Rightarrow> maps" where
  "classify_args parameters args =
     fold (\<lambda>(name, v) m. case parameters of
                            None \<Rightarrow> m
                          | Some ps \<Rightarrow> fold (place name v) ps m)
          args empty_maps"

definition nonEmpty :: "(string \<times> json) list \<Rightarrow> (string \<times> json) list option" where
  "nonEmpty m = (if m \<noteq> [] then Some m else None)"

definition build_payload :: "string \<Rightarrow> Operation \<Rightarrow> (string \<times> json) list \<Rightarrow> GatewayPayload" where
  "build_payload base operation args =
     (let m = classify_args (op_parameters operation) args
      in \<lparr> baseUrl = base @ op_path operation, http_method = op_method operation,
           formData = nonEmpty (formData_map m), headers = nonEmpty (headers_map m),
           path = nonEmpty (path_map m), query = nonEmpty (query_map m),
           cookie = nonEmpty (cookie_map m) \<rparr>)"

text \<open>
  One round of the loop of \<open>handleFunctionCall\<close> (lines 290--385). A round ends by
  going on to the next call, by returning from the handler, or by throwing: reading a
  property of \<open>undefined\<close> throws a \<open>TypeError\<close>, outside the \<open>try\<close> block. A
  round waits twice for the gateway, for the answer of \<open>fetch\<close> (line 346) and for its
  body (line 359), and is cut there into the parts that run without a wait.
\<close>

datatype flow = Continue | Return | Throw thrown

abbreviation TypeError :: thrown where
  "TypeError \<equiv> ErrorObj ''TypeError''"

definition catch_gateway :: "thrown \<Rightarrow> state \<Rightarrow> state" where
  "catch_gateway err s =
     (case err of ErrorObj m \<Rightarrow> handleError m (Some 500) s | NonError \<Rightarrow> s)"

text \<open>
  The call name is split at the first \<open>_\<close> (lines 301 and 307):
  \<open>call.name.split('_')[0]\<close> is the text before it, and
  \<open>call.name.substring(1 + pluginId.length)\<close> what follows it.
\<close>

definition pluginId_of :: "FunctionCall \<Rightarrow> string" where
  "pluginId_of call = takeWhile (\<lambda>c. c \<noteq> CHR ''_'') (call_name call)"

definition operationId_of :: "FunctionCall \<Rightarrow> string" where
  "operationId_of call = drop (1 + length (pluginId_of call)) (call_name call)"

text \<open>
  Lines 303--306: the base URL is empty without \<open>servers\<close>; an array is truthy even
  when empty, and \<open>servers[0].url\<close> of an empty array throws.
\<close>

definition server_baseUrl :: "OpenAPI \<Rightarrow> thrown + string" where
  "server_baseUrl doc =
     (case servers doc of
        None \<Rightarrow> Inr []
      | Some [] \<Rightarrow> Inl TypeError
      | Some (sv # _) \<Rightarrow> Inr (url sv))"

text \<open>
  Lines 290--349, up to the call of \<open>fetch\<close>: the round is over (thrown or returned),
  or the payload is posted and the round waits, holding the placeholder it has made.
\<close>

definition dispatch_call_post ::
  "externals \<Rightarrow> settings \<Rightarrow> plugins \<Rightarrow> FunctionCall \<Rightarrow> state \<Rightarrow>
   (flow \<times> state) + (Message \<times> string \<times> GatewayPayload \<times> state)" where
  "dispatch_call_post ext st pl call s0 =
     (let (id1, s) = nanoid ext s0;
          newModelMessage = \<lparr> msg_id = id1, role = Model, parts = [PText []],
                               attachments = None \<rparr>;
          (id2, s) = nanoid ext s;
          functionCallMessage = \<lparr> msg_id = id2, role = Model, parts = [PFunctionCall call],
                                   attachments = None \<rparr>;
          s = addMessage functionCallMessage s
      in case installed pl (pluginId_of call) of
           None \<Rightarrow> Inl (Throw TypeError, s)
         | Some pluginManifest \<Rightarrow>
             (case server_baseUrl (openapi pluginManifest) of
                Inl err \<Rightarrow> Inl (Throw err, s)
              | Inr base \<Rightarrow>
                  (case findOperationById (openapi pluginManifest) (operationId_of call) of
                     None \<Rightarrow> Inl (Return, handleError ''FunctionCall execution failed!'' None s)
                   | Some operation \<Rightarrow>
                       (let token = encodeToken ext (password st);
                            payload = build_payload base operation (call_args call)
                        in Inr (newModelMessage, token, payload,
                                s\<lparr> events := events s @ [GatewayCall token payload] \<rparr>)))))"

text \<open>
  Lines 365--380, once the body of the answer is read: from the state as it is then, the
  response and the placeholder are added and the follow-up turn is asked.
\<close>

definition dispatch_call_respond ::
  "externals \<Rightarrow> world \<Rightarrow> settings \<Rightarrow> plugins \<Rightarrow> FunctionCall \<Rightarrow> Message \<Rightarrow> string \<Rightarrow> json \<Rightarrow>
   state \<Rightarrow> state" where
  "dispatch_call_respond ext w st pl call newModelMessage id3 c s0 =
     (let functionResponseMessage =
            \<lparr> msg_id = id3, role = Function,
              parts = [PFunctionResponse (call_name call) (call_name call) c],
              attachments = None \<rparr>;
          s = addMessage functionResponseMessage s0;
          s = addMessage newModelMessage s
      in fetchAnswer ext w st pl (butlast (messages s)) (model st)
           handleResponse_start None (Some handleError) s)"

text \<open>
  The state in which a round finds the program when the body of the answer is read: the
  others have run during the wait for \<open>fetch\<close>, the id of the response is drawn (line
  351), and the others have run again during the wait for the body.
\<close>

definition answer_read :: "externals \<Rightarrow> world \<Rightarrow> state \<Rightarrow> state" where
  "answer_read ext w s = await_others w (snd (nanoid ext (await_others w s)))"

text \<open>Lines 346--385, from the posted payload on.\<close>

definition dispatch_call_resume ::
  "externals \<Rightarrow> world \<Rightarrow> settings \<Rightarrow> plugins \<Rightarrow> FunctionCall \<Rightarrow> Message \<Rightarrow> string \<Rightarrow>
   GatewayPayload \<Rightarrow> state \<Rightarrow> state" where
  "dispatch_call_resume ext w st pl call newModelMessage token payload s =
     (case gateway w (clock s) token payload of
        FetchFailed err \<Rightarrow> catch_gateway err (await_others w s)
      | JsonFailed err \<Rightarrow> catch_gateway err (answer_read ext w s)
      | Responded c \<Rightarrow>
          dispatch_call_respond ext w st pl call newModelMessage
            (fst (nanoid ext (await_others w s))) c (answer_read ext w s))"

definition dispatch_call ::
  "externals \<Rightarrow> world \<Rightarrow> settings \<Rightarrow> plugins \<Rightarrow> FunctionCall \<Rightarrow> state \<Rightarrow> flow \<times> state" where
  "dispatch_call ext w st pl call s =
     (case dispatch_call_post ext st pl call s of
        Inl over \<Rightarrow> over
      | Inr (newModelMessage, token, payload, s') \<Rightarrow>
          (Continue, dispatch_call_resume ext w st pl call newModelMessage token payload s'))"

text \<open>
  \<open>handleFunctionCall\<close> from its start to its end: the calls of the batch one after
  the other, the others running at every wait for the gateway.
\<close>

fun handleFunctionCall ::
  "externals \<Rightarrow> world \<Rightarrow> settings \<Rightarrow> plugins \<Rightarrow> FunctionCall list \<Rightarrow> state \<Rightarrow> flow \<times> state" where
  "handleFunctionCall ext w st pl [] s = (Return, s)"
| "handleFunctionCall ext w st pl (call # rest) s =
     (case dispatch_call ext w st pl call s of
        (Continue, s') \<Rightarrow> handleFunctionCall ext w st pl rest s'
      | (Return, s') \<Rightarrow> (Return, s')
      | (Throw e, s') \<Rightarrow> (Throw e, s'))"

text \<open>
  What a caller that does not await the handler sees of it (lines 188 and 465--467): the
  handler runs up to its first wait, the call of \<open>fetch\<close> for the first call of the
  batch, and is kept in \<open>dispatching\<close> with what it holds; what it throws is dropped
  with its promise. \<open>handleFunctionCall_resume\<close> is the handler going on from there.
\<close>

definition handleFunctionCall_start ::
  "externals \<Rightarrow> settings \<Rightarrow> plugins \<Rightarrow> FunctionCall list \<Rightarrow> state \<Rightarrow> state" where
  "handleFunctionCall_start ext st pl functionCalls s =
     (case functionCalls of
        [] \<Rightarrow> s
      | call # rest \<Rightarrow>
          (case dispatch_call_post ext st pl call s of
             Inl (over, s') \<Rightarrow> s'
           | Inr (newModelMessage, token, payload, s') \<Rightarrow>
               s'\<lparr> dispatching := dispatching s'
                                   @ [(call, newModelMessage, token, payload, rest)] \<rparr>))"

definition handleFunctionCall_resume ::
  "externals \<Rightarrow> world \<Rightarrow> settings \<Rightarrow> plugins \<Rightarrow>
   FunctionCall \<times> Message \<times> string \<times> GatewayPayload \<times> FunctionCall list \<Rightarrow> state \<Rightarrow>
   flow \<times> state" where
  "handleFunctionCall_resume ext w st pl held s =
     (case held of
        (call, newModelMessage, token, payload, rest) \<Rightarrow>
          handleFunctionCall ext w st pl rest
            (dispatch_call_resume ext w st pl call newModelMessage token payload s))"

section \<open>Turn completion and summarizing\<close>

text \<open>
  Modelled from the spec: \<open>summarize\<close> of the message store (here \<open>summarizeChat\<close>, the
  name the page gives it), which is not under \<open>src/\<close>. The spec has it replace the
  summary's content and extend the folded ids by the ids of the selection.
\<close>

definition summarizeChat :: "string list \<Rightarrow> string \<Rightarrow> state \<Rightarrow> state" where
  "summarizeChat is t s =
     s\<lparr> summary := \<lparr> summary_ids = summary_ids (summary s) @ is, summary_content = t \<rparr> \<rparr>"


definition summarize_finish :: "externals \<Rightarrow> string list \<Rightarrow> bytes list \<Rightarrow> state \<Rightarrow> state" where
  "summarize_finish ext is readableStream s =
     summarizeChat is (trim ext (streamToText ext readableStream)) s"




section \<open>Submitting and resubmitting\<close>

definition startsWith :: "string \<Rightarrow> string \<Rightarrow> bool" where
  "startsWith t p = (take (length p) t = p)"

text \<open>\<open>String.split\<close> at a separator that is not empty, \<open>c # cs\<close>.\<close>

fun splitOn :: "char \<Rightarrow> string \<Rightarrow> string \<Rightarrow> string \<Rightarrow> string list" where
  "splitOn c cs [] cur = [rev cur]"
| "splitOn c cs (x # xs) cur =
     (if take (Suc (length cs)) (x # xs) = c # cs
      then rev cur # splitOn c cs (drop (length cs) xs) []
      else splitOn c cs xs (x # cur))"

definition split_base64 :: "string \<Rightarrow> string list" where
  "split_base64 t = splitOn CHR '';'' ''base64,'' t []"

definition second :: "string list \<Rightarrow> string option" where
  "second xs = (case xs of _ # d # _ \<Rightarrow> Some d | _ \<Rightarrow> None)"

definition file_part :: "bool \<Rightarrow> FileInfor \<Rightarrow> part list" where
  "file_part isOldVisionModel file =
     (if isOldVisionModel
      then (case file_preview file of
              Some p \<Rightarrow> (if p \<noteq> []
                         then [PInlineData (file_mimeType file) (second (split_base64 p))]
                         else [])
            | None \<Rightarrow> [])
      else (case file_metadata file of
              Some (mt, uri) \<Rightarrow> [PFileData mt uri]
            | None \<Rightarrow> []))"

text \<open>
  The callbacks that \<open>handleSubmit\<close> and \<open>handleResubmit\<close> pass to \<open>fetchAnswer\<close>:
  none waits for the handler it starts, so a started \<open>handleFunctionCall\<close> has run up
  to its first wait when the callback returns.
\<close>

definition onFunctionCall_cb ::
  "externals \<Rightarrow> world \<Rightarrow> settings \<Rightarrow> plugins \<Rightarrow> FunctionCall list \<Rightarrow> state \<Rightarrow> state" where
  "onFunctionCall_cb ext w st pl functionCalls s =
     handleFunctionCall_start ext st pl functionCalls s"

text \<open>
  \<open>handleSubmit\<close> (lines 391--474). Modelled from the spec: \<open>clear\<close> of the attachment
  store (not under \<open>src/\<close>) leaves no file attached.
\<close>

definition handleSubmit ::
  "externals \<Rightarrow> world \<Rightarrow> settings \<Rightarrow> plugins \<Rightarrow> string \<Rightarrow> state \<Rightarrow> settled \<times> state" where
  "handleSubmit ext w st pl t s0 =
     (if t = [] then (Rejected, s0)
      else
        (let isOldVisionModel = (model st \<in> set (OldVisionModel ext));
             summ = summary s0;
             messagePart = (if length (files s0) > 0
                            then concat (map (file_part isOldVisionModel) (files s0))
                            else []);
             talkAudioMode = (startsWith t ''data:audio/webm;base64,''
                              \<or> startsWith t ''data:audio/mp4;base64,'');
             messagePart =
               (if talkAudioMode
                then (let audioData = split_base64 (drop 5 t)
                      in messagePart @ [PInlineData (case audioData of [] \<Rightarrow> [] | a # _ \<Rightarrow> a)
                                                    (second audioData)])
                else messagePart @ [PText t]);
             (i, s) = nanoid ext s0;
             newUserMessage = \<lparr> msg_id = i, role = User, parts = messagePart,
                                attachments = (if \<not> isOldVisionModel then Some (files s0)
                                               else None) \<rparr>;
             s = addMessage newUserMessage s;
             msgs = messages s;
             msgs = (if talkAudioMode then getTalkAudioPrompt ext msgs else msgs);
             msgs = (if talkMode st = ''voice'' then getVoiceModelPrompt ext msgs else msgs);
             s = (if talkMode st = ''voice'' then s\<lparr> status := Thinkng, subtitle := [] \<rparr>
                  else s);
             msgs = (if summary_content summ \<noteq> []
                     then getSummaryPrompt ext (summary_content summ)
                          @ filter (\<lambda>item. msg_id item \<notin> set (summary_ids summ)) msgs
                     else msgs);
             s = s\<lparr> content := [], files := [], textareaHeight := 30 \<rparr>
         in (Resolved,
             fetchAnswer ext w st pl msgs (model st) handleResponse_start
               (Some (onFunctionCall_cb ext w st pl)) (Some handleError) s)))"

text \<open>
  \<open>handleResubmit\<close> (lines 476--506). \<open>findIndex\<close> is lodash's: the first index whose
  message has the id, or \<open>-1\<close>. What runs before the turn is awaited is
  \<open>handleResubmit_revoke\<close>.
\<close>

fun findIndex_from :: "nat \<Rightarrow> Message list \<Rightarrow> string \<Rightarrow> int" where
  "findIndex_from k [] i = - 1"
| "findIndex_from k (m # ms) i = (if msg_id m = i then int k else findIndex_from (Suc k) ms i)"

definition findIndex :: "Message list \<Rightarrow> string \<Rightarrow> int" where
  "findIndex ms i = findIndex_from 0 ms i"

definition handleResubmit_revoke :: "string \<Rightarrow> state \<Rightarrow> state" where
  "handleResubmit_revoke i s =
     (if i \<noteq> ''error''
      then (let messageIndex = findIndex (messages s) i
            in if messageIndex \<noteq> - 1
               then (if role (messages s ! nat messageIndex) = Model
                     then revoke i s
                     else (if nat messageIndex + 1 < length (messages s)
                           then revoke (msg_id (messages s ! (nat messageIndex + 1))) s
                           else s))
               else s)
      else s)"

definition handleResubmit ::
  "externals \<Rightarrow> world \<Rightarrow> settings \<Rightarrow> plugins \<Rightarrow> string \<Rightarrow> state \<Rightarrow> state" where
  "handleResubmit ext w st pl i s0 =
     (let s = handleResubmit_revoke i s0
      in fetchAnswer ext w st pl (messages s) (model st) handleResponse_start
           (Some (onFunctionCall_cb ext w st pl)) (Some handleError) s)"

section \<open>Reading the record of effects\<close>

text \<open>
  The messages handed to the store's \<open>add\<close>, the requests sent to the model and the
  payloads posted to the gateway, each in the order of the events.
\<close>

fun added :: "event list \<Rightarrow> Message list" where
  "added [] = []"
| "added (Added m # es) = m # added es"
| "added (e # es) = added es"

fun requests :: "event list \<Rightarrow> RequestProps list" where
  "requests [] = []"
| "requests (ChatCall c # es) = c # requests es"
| "requests (e # es) = requests es"

fun posted :: "event list \<Rightarrow> GatewayPayload list" where
  "posted [] = []"
| "posted (GatewayCall t p # es) = p # posted es"
| "posted (e # es) = posted es"

text \<open>
  The three kinds of message that the dispatcher writes: the record of a call, the
  function-role response to a named call, and the empty model-role placeholder.
\<close>

datatype shape = CallRecord FunctionCall | ResponseRecord string | Placeholder | Other

definition shape :: "Message \<Rightarrow> shape" where
  "shape m =
     (case parts m of
        [PFunctionCall c] \<Rightarrow> (if role m = Model then CallRecord c else Other)
      | [PFunctionResponse n n' c] \<Rightarrow> (if role m = Function \<and> n' = n then ResponseRecord n else Other)
      | [PText t] \<Rightarrow> (if role m = Model \<and> t = [] then Placeholder else Other)
      | _ \<Rightarrow> Other)"

text \<open>
  The steps of a dispatch that can be seen from outside, in order: a message written to
  the log, a payload posted to the gateway, a turn asked of the model.
\<close>

datatype step = Wrote shape | Posted | Asked

fun steps :: "event list \<Rightarrow> step list" where
  "steps [] = []"
| "steps (Added m # es) = Wrote (shape m) # steps es"
| "steps (GatewayCall t p # es) = Posted # steps es"
| "steps (ChatCall c # es) = Asked # steps es"
| "steps (e # es) = steps es"


definition extends :: "state \<Rightarrow> state \<Rightarrow> bool" where
  "extends s s' = (\<exists>rest. events s' = events s @ rest)"

section \<open>Concrete inputs\<close>

text \<open>
  A small installation used to run the definitions: one plugin \<open>weather\<close> with one
  operation \<open>get\<close>, a world whose model answers with an empty stream and whose gateway
  answers with a JSON string, and an empty conversation.
\<close>

definition ext0 :: externals where
  "ext0 = \<lparr> encodeToken = (\<lambda>p. ''token-'' @ p),
            encode = map of_char,
            nanoid_at = (\<lambda>n. ''id'' @ string_of_nat n),
            getTalkAudioPrompt = (\<lambda>ms. ms),
            getVoiceModelPrompt = (\<lambda>ms. ms),
            getSummaryPrompt = (\<lambda>c. [\<lparr> msg_id = ''summary'', role = User,
                                          parts = [PText c], attachments = None \<rparr>]),
            summarizePrompt = (\<lambda>ms is c. (map msg_id ms, c)),
            streamToText = (\<lambda>bs. map char_of (concat bs)),
            trim = (\<lambda>t. t),
            OldVisionModel = [''gemini-pro-vision''] \<rparr>"

definition st0 :: settings where
  "st0 = \<lparr> apiKey = [], apiProxy = [], password = ''pw'',
           generation = \<lparr> topP = 1, topK = 1, temperature = 1, maxOutputTokens = 100 \<rparr>,
           safety = ''none'', talkMode = ''chat'', model = ''gemini-1.5-flash'',
           maxHistoryLength = 1, ttsVoice = ''en-US'' \<rparr>"

definition weather :: PluginManifest where
  "weather = \<lparr> openapi = \<lparr> servers = Some [\<lparr> url = ''https://w.example'' \<rparr>],
                 operations = [(''get'', \<lparr> op_path = ''/now'', op_method = ''get'',
                    op_parameters = Some [\<lparr> param_name = ''city'', param_in = ''query'' \<rparr>,
                                          \<lparr> param_name = ''X-Key'', param_in = ''header'' \<rparr>] \<rparr>)]
               \<rparr> \<rparr>"

definition pl0 :: plugins where
  "pl0 = \<lparr> tools = [], installed = [''weather'' \<mapsto> weather] \<rparr>"

definition w0 :: world where
  "w0 = \<lparr> chat = (\<lambda>n cfg. ChatStream []),
          gateway = (\<lambda>n token payload. Responded (JStr ''sunny'')),
          meanwhile = (\<lambda>n s. s) \<rparr>"

text \<open>
  A world in which the turn that carried the call completes during the first wait of the
  round and adds its model message, whose text is empty; a world whose model refuses
  every request; and an installation whose plugin has an empty list of servers.
\<close>

definition w_busy :: world where
  "w_busy = w0\<lparr> meanwhile := (\<lambda>n s. if n = 0
       then s\<lparr> messages := messages s @ [\<lparr> msg_id = ''carrying'', role = Model,
                                           parts = [PText []], attachments = None \<rparr>] \<rparr>
       else s) \<rparr>"

definition w_refuse :: world where
  "w_refuse = w0\<lparr> chat := (\<lambda>n cfg. ChatThrows (ErrorObj ''refused'')) \<rparr>"

definition pl_noservers :: plugins where
  "pl_noservers = \<lparr> tools = [],
       installed = [''weather'' \<mapsto> \<lparr> openapi = (openapi weather)\<lparr> servers := Some [] \<rparr> \<rparr>] \<rparr>"

definition s_empty :: state where
  "s_empty = \<lparr> messages = [], summary = \<lparr> summary_ids = [], summary_content = [] \<rparr>,
          systemInstruction = [], files = [], content = [], message = [], subtitle = [],
          errorMessage = [], speechSilence = False, status = Silence, textareaHeight = 30,
          speechQueue = None, audio = None, responding = [], summarizing = [],
          dispatching = [], seed = 0,
          clock = 0, events = [] \<rparr>"

definition call0 :: FunctionCall where
  "call0 = \<lparr> call_name = ''weather_get'',
             call_args = [(''city'', JStr ''Paris''), (''X-Key'', JStr ''k'')] \<rparr>"

definition dev0 :: devices where
  "dev0 = \<lparr> edgeSpeech = Some (\<lambda>input voice. Some [1, 2, 3]), audioStream = True,
            siriWave = False, isSafari = False \<rparr>"

text \<open>A conversation of two turns, the first of which is folded into the summary.\<close>

definition s_chat :: state where
  "s_chat = s_empty\<lparr> messages :=
      [\<lparr> msg_id = ''aaaaaaaa'', role = User, parts = [PText ''hello''], attachments = None \<rparr>,
       \<lparr> msg_id = ''bbbbbbbb'', role = Model, parts = [PText ''hi''], attachments = None \<rparr>],
      summary := \<lparr> summary_ids = [''aaaaaaaa''], summary_content = ''greeting'' \<rparr> \<rparr>"

section \<open>The request of a turn\<close>

text \<open>
  C9. Every request that \<open>fetchAnswer\<close> builds takes one of two authentication paths.
  With an API key that is not empty the request carries that key, and the proxy as base
  URL exactly when a proxy is set; with an empty API key it carries the token signed
  from the password and the base path \<open>/api/google\<close>. The two cases exclude each
  other.
\<close>

theorem fetchAnswer_auth_path:
  "(apiKey st \<noteq> [] \<longrightarrow>
      req_apiKey (fetchAnswer_config ext st pl si msgs mdl) = apiKey st
      \<and> req_baseUrl (fetchAnswer_config ext st pl si msgs mdl)
          = (if apiProxy st \<noteq> [] then Some (apiProxy st) else None))
   \<and> (apiKey st = [] \<longrightarrow>
      req_apiKey (fetchAnswer_config ext st pl si msgs mdl) = encodeToken ext (password st)
      \<and> req_baseUrl (fetchAnswer_config ext st pl si msgs mdl) = Some ''/api/google'')"
  by (simp add: fetchAnswer_config_def Let_def)

theorem fetchAnswer_auth_path_witness:
  "(apiKey (st0\<lparr> apiKey := ''key'', apiProxy := ''https://proxy'' \<rparr>) \<noteq> []
    \<and> req_apiKey (fetchAnswer_config ext0
          (st0\<lparr> apiKey := ''key'', apiProxy := ''https://proxy'' \<rparr>) pl0 [] [] ''m'') = ''key''
    \<and> req_baseUrl (fetchAnswer_config ext0
          (st0\<lparr> apiKey := ''key'', apiProxy := ''https://proxy'' \<rparr>) pl0 [] [] ''m'')
        = Some ''https://proxy'')
   \<and> (apiKey st0 = []
    \<and> req_apiKey (fetchAnswer_config ext0 st0 pl0 [] [] ''m'') = ''token-pw''
    \<and> req_baseUrl (fetchAnswer_config ext0 st0 pl0 [] [] ''m'') = Some ''/api/google'')"
  using fetchAnswer_auth_path[where st = "st0\<lparr> apiKey := ''key'', apiProxy := ''https://proxy'' \<rparr>"
          and ext = ext0 and pl = pl0 and si = "[]" and msgs = "[]" and mdl = "''m''"]
        fetchAnswer_auth_path[where st = st0 and ext = ext0 and pl = pl0 and si = "[]"
          and msgs = "[]" and mdl = "''m''"]
  by (simp add: st0_def ext0_def)

section \<open>The chunks of a stream\<close>

lemma enqueued_start:
  "enqueued (start enc cb chunks) =
     map (\<lambda>c. enc (chunk_text c)) (filter (\<lambda>c. chunk_functionCalls c = None) chunks)"
  by (induction chunks) (auto split: option.splits)

lemma forwarded_start:
  "forwarded (start enc cb chunks) =
     (if cb then concat (map (\<lambda>c. case chunk_functionCalls c of
                                     Some calls \<Rightarrow> [calls] | None \<Rightarrow> []) chunks)
      else [])"
  by (induction chunks) (auto split: option.splits)

text \<open>
  C8. Of the chunks of a model stream, those without function calls have their text
  encoded and enqueued on the text channel, in arrival order, and nothing else is
  enqueued; those with function calls go to the function-call callback only, in arrival
  order (and nowhere when the caller passed no callback).
\<close>

theorem start_demultiplexes:
  "enqueued (start enc cb chunks)
     = map (\<lambda>c. enc (chunk_text c)) (filter (\<lambda>c. chunk_functionCalls c = None) chunks)
   \<and> forwarded (start enc cb chunks)
     = (if cb then concat (map (\<lambda>c. case chunk_functionCalls c of
                                       Some calls \<Rightarrow> [calls] | None \<Rightarrow> []) chunks)
        else [])"
  by (simp add: enqueued_start forwarded_start)

section \<open>Submitting\<close>

text \<open>
  C10. Submitting the empty string is rejected at once and changes nothing: no message
  is added, the attachments stay, and no request is sent (the whole state, with its
  record of events, is the one before).
\<close>

theorem handleSubmit_empty_rejected:
  "handleSubmit ext w st pl [] s = (Rejected, s)"
  by (simp add: handleSubmit_def)

section \<open>What the error path and a follow-up turn leave behind\<close>

lemma added_append [simp]: "added (xs @ ys) = added xs @ added ys"
  by (induction xs rule: added.induct) auto

lemma requests_append [simp]: "requests (xs @ ys) = requests xs @ requests ys"
  by (induction xs rule: requests.induct) auto

lemma posted_append [simp]: "posted (xs @ ys) = posted xs @ posted ys"
  by (induction xs rule: posted.induct) auto

lemma steps_append [simp]: "steps (xs @ ys) = steps xs @ steps ys"
  by (induction xs rule: steps.induct) auto

lemma steps_silent: "added es = [] \<Longrightarrow> requests es = [] \<Longrightarrow> posted es = [] \<Longrightarrow> steps es = []"
  by (induction es rule: steps.induct) auto

lemma forwarded_start_no_callback: "forwarded (start enc False chunks) = []"
  by (induction chunks) (auto split: option.splits)

lemma fetchAnswer_config_fields:
  "req_messages (fetchAnswer_config ext st pl si msgs mdl) = msgs"
  "req_model (fetchAnswer_config ext st pl si msgs mdl) = mdl"
  by (simp_all add: fetchAnswer_config_def Let_def)

lemma handleError_effect:
  "\<exists>rest. events (handleError m c s) = events s @ rest \<and> added rest = [] \<and> requests rest = []
      \<and> posted rest = []
      \<and> seed (handleError m c s) = seed s \<and> clock (handleError m c s) = clock s"
  by (cases "messages s") (auto simp: handleError_def revoke_def Let_def)

lemma await_others_effect:
  "events (await_others w s) = events s"
  "(\<forall>n. meanwhile w n = (\<lambda>s. s)) \<Longrightarrow> messages (await_others w s) = messages s"
  by (simp_all add: await_others_def)

lemma followup_turn:
  assumes "s' = fetchAnswer ext w st pl msgs mdl handleResponse_start None (Some handleError) s"
    and "cfg = fetchAnswer_config ext st pl (systemInstruction s) msgs mdl"
  shows "\<exists>rest. events s' = events s @ ChatCall cfg # rest \<and> added rest = []
            \<and> requests rest = [] \<and> posted rest = []"
    and "(\<forall>m. chat w (clock s) cfg \<noteq> ChatThrows (ErrorObj m)) \<Longrightarrow>
         (\<forall>n. meanwhile w n = (\<lambda>s. s)) \<Longrightarrow> messages s' = messages s"
proof -
  let ?s1 = "await_others w (s\<lparr> errorMessage := [], events := events s @ [ChatCall cfg] \<rparr>)"
  have ev1: "events ?s1 = events s @ [ChatCall cfg]"
    by (simp add: await_others_effect(1))
  show "\<exists>rest. events s' = events s @ ChatCall cfg # rest \<and> added rest = []
            \<and> requests rest = [] \<and> posted rest = []"
  proof (cases "chat w (clock s) cfg")
    case (ChatStream chunks)
    then show ?thesis
      using ev1
      by (simp add: assms fetchAnswer_def Let_def forwarded_start_no_callback
            handleResponse_start_def)
  next
    case (ChatThrows e)
    show ?thesis
    proof (cases e)
      case (ErrorObj m)
      obtain rest where "events (handleError m None ?s1) = events ?s1 @ rest"
        "added rest = []" "requests rest = []" "posted rest = []"
        using handleError_effect by blast
      with ChatThrows ErrorObj ev1 show ?thesis
        using assms by (simp add: fetchAnswer_def Let_def)
    next
      case NonError
      with ChatThrows ev1 show ?thesis
        using assms by (simp add: fetchAnswer_def Let_def)
    qed
  qed
  show "(\<forall>m. chat w (clock s) cfg \<noteq> ChatThrows (ErrorObj m)) \<Longrightarrow>
         (\<forall>n. meanwhile w n = (\<lambda>s. s)) \<Longrightarrow> messages s' = messages s"
    by (auto simp: assms fetchAnswer_def Let_def forwarded_start_no_callback
          handleResponse_start_def await_others_def split: chat_result.splits thrown.splits)
qed

section \<open>Dispatching function calls\<close>

lemma dispatch_call_post_resolved:
  assumes "installed pl (pluginId_of call) = Some pm"
    and "server_baseUrl (openapi pm) = Inr base"
    and "findOperationById (openapi pm) (operationId_of call) = Some operation"
    and "cr = \<lparr> msg_id = nanoid_at ext (Suc (seed s)), role = Model,
                 parts = [PFunctionCall call], attachments = None \<rparr>"
    and "ph = \<lparr> msg_id = nanoid_at ext (seed s), role = Model, parts = [PText []],
                 attachments = None \<rparr>"
  shows "dispatch_call_post ext st pl call s =
           Inr (ph, encodeToken ext (password st),
                build_payload base operation (call_args call),
                s\<lparr> seed := Suc (Suc (seed s)), messages := messages s @ [cr],
                   events := events s @ [Added cr,
                     GatewayCall (encodeToken ext (password st))
                       (build_payload base operation (call_args call))] \<rparr>)"
  using assms(1-3) unfolding assms(4,5)
  by (simp add: dispatch_call_post_def nanoid_def addMessage_def Let_def)

lemma answer_read_effect:
  "events (answer_read ext w s) = events s"
  "clock (answer_read ext w s) = Suc (Suc (clock s))"
  "(\<forall>n. meanwhile w n = (\<lambda>s. s)) \<Longrightarrow> messages (answer_read ext w s) = messages s"
  by (simp_all add: answer_read_def await_others_def nanoid_def)

lemma dispatch_call_respond_effect:
  assumes "fr = \<lparr> msg_id = i, role = Function,
                 parts = [PFunctionResponse (call_name call) (call_name call) c],
                 attachments = None \<rparr>"
    and "cfg = fetchAnswer_config ext st pl (systemInstruction h) (messages h @ [fr]) (model st)"
  shows "\<exists>rest. events (dispatch_call_respond ext w st pl call ph i c h)
                  = events h @ [Added fr, Added ph, ChatCall cfg] @ rest
                \<and> added rest = [] \<and> requests rest = [] \<and> posted rest = []"
    and "(\<forall>n m. chat w n cfg \<noteq> ChatThrows (ErrorObj m)) \<Longrightarrow>
         (\<forall>n. meanwhile w n = (\<lambda>s. s)) \<Longrightarrow>
           messages (dispatch_call_respond ext w st pl call ph i c h) = messages h @ [fr, ph]"
proof -
  define h3 where "h3 = h\<lparr> messages := messages h @ [fr, ph],
                           events := events h @ [Added fr, Added ph] \<rparr>"
  define s' where "s' = fetchAnswer ext w st pl (messages h @ [fr]) (model st)
                          handleResponse_start None (Some handleError) h3"
  have run: "dispatch_call_respond ext w st pl call ph i c h = s'"
    by (simp add: dispatch_call_respond_def addMessage_def Let_def butlast_append s'_def h3_def
          assms(1))
  have cfg3: "cfg = fetchAnswer_config ext st pl (systemInstruction h3) (messages h @ [fr])
                      (model st)"
    by (simp add: assms(2) h3_def)
  obtain rest where "events s' = events h3 @ ChatCall cfg # rest" "added rest = []"
      "requests rest = []" "posted rest = []"
    using followup_turn(1)[OF s'_def cfg3] by blast
  then show "\<exists>rest. events (dispatch_call_respond ext w st pl call ph i c h)
                  = events h @ [Added fr, Added ph, ChatCall cfg] @ rest
                \<and> added rest = [] \<and> requests rest = [] \<and> posted rest = []"
    by (simp add: run h3_def)
  show "(\<forall>n m. chat w n cfg \<noteq> ChatThrows (ErrorObj m)) \<Longrightarrow>
         (\<forall>n. meanwhile w n = (\<lambda>s. s)) \<Longrightarrow>
           messages (dispatch_call_respond ext w st pl call ph i c h) = messages h @ [fr, ph]"
    using followup_turn(2)[OF s'_def cfg3] by (simp add: run h3_def)
qed

lemma dispatch_call_responded:
  assumes "installed pl (pluginId_of call) = Some pm"
    and "server_baseUrl (openapi pm) = Inr base"
    and "findOperationById (openapi pm) (operationId_of call) = Some operation"
    and "gateway w (clock s) (encodeToken ext (password st))
           (build_payload base operation (call_args call)) = Responded c"
    and "cr = \<lparr> msg_id = nanoid_at ext (Suc (seed s)), role = Model,
                 parts = [PFunctionCall call], attachments = None \<rparr>"
    and "ph = \<lparr> msg_id = nanoid_at ext (seed s), role = Model, parts = [PText []],
                 attachments = None \<rparr>"
  shows "\<exists>s1 h i fr cfg rest s'.
           dispatch_call_post ext st pl call s
             = Inr (ph, encodeToken ext (password st),
                    build_payload base operation (call_args call), s1)
         \<and> events s1 = events s @ [Added cr,
               GatewayCall (encodeToken ext (password st))
                 (build_payload base operation (call_args call))]
         \<and> messages s1 = messages s @ [cr]
         \<and> h = answer_read ext w s1
         \<and> fr = \<lparr> msg_id = i, role = Function,
                    parts = [PFunctionResponse (call_name call) (call_name call) c],
                    attachments = None \<rparr>
         \<and> dispatch_call ext w st pl call s = (Continue, s')
         \<and> events s' = events h @ [Added fr, Added ph, ChatCall cfg] @ rest
         \<and> added rest = [] \<and> requests rest = [] \<and> posted rest = []
         \<and> req_messages cfg = messages h @ [fr]
         \<and> ((\<forall>n m. chat w n cfg \<noteq> ChatThrows (ErrorObj m))
              \<and> (\<forall>n. meanwhile w n = (\<lambda>s. s))
              \<longrightarrow> messages s' = messages h @ [fr, ph])"
proof -
  let ?tok = "encodeToken ext (password st)"
  let ?payload = "build_payload base operation (call_args call)"
  define s1 where "s1 = s\<lparr> seed := Suc (Suc (seed s)), messages := messages s @ [cr],
                   events := events s @ [Added cr, GatewayCall ?tok ?payload] \<rparr>"
  define h where "h = answer_read ext w s1"
  define i where "i = fst (nanoid ext (await_others w s1))"
  define fr where "fr = \<lparr> msg_id = i, role = Function,
                    parts = [PFunctionResponse (call_name call) (call_name call) c],
                    attachments = None \<rparr>"
  define cfg where "cfg = fetchAnswer_config ext st pl (systemInstruction h)
                            (messages h @ [fr]) (model st)"
  define s' where "s' = dispatch_call_respond ext w st pl call ph i c h"
  have post: "dispatch_call_post ext st pl call s = Inr (ph, ?tok, ?payload, s1)"
    unfolding s1_def by (rule dispatch_call_post_resolved[OF assms(1-3,5,6)])
  have gw: "gateway w (clock s1) ?tok ?payload = Responded c"
    using assms(4) by (simp add: s1_def)
  have run: "dispatch_call ext w st pl call s = (Continue, s')"
    by (simp add: dispatch_call_def post dispatch_call_resume_def gw s'_def i_def h_def)
  obtain rest where rest: "events s' = events h @ [Added fr, Added ph, ChatCall cfg] @ rest"
      "added rest = []" "requests rest = []" "posted rest = []"
    using dispatch_call_respond_effect(1)[OF fr_def cfg_def] unfolding s'_def by blast
  have ms: "(\<forall>n m. chat w n cfg \<noteq> ChatThrows (ErrorObj m))
              \<and> (\<forall>n. meanwhile w n = (\<lambda>s. s))
              \<longrightarrow> messages s' = messages h @ [fr, ph]"
    using dispatch_call_respond_effect(2)[OF fr_def cfg_def] unfolding s'_def by blast
  have "events s1 = events s @ [Added cr, GatewayCall ?tok ?payload]"
      "messages s1 = messages s @ [cr]"
    by (simp_all add: s1_def)
  moreover have "req_messages cfg = messages h @ [fr]"
    by (simp add: cfg_def fetchAnswer_config_fields)
  ultimately show ?thesis
    using post run rest ms h_def fr_def by blast
qed

lemma call0_resolves:
  "installed pl0 (pluginId_of call0) = Some weather"
  "server_baseUrl (openapi weather) = Inr ''https://w.example''"
  "servers (openapi weather) \<noteq> Some []"
  "findOperationById (openapi weather) (operationId_of call0)
     = Some \<lparr> op_path = ''/now'', op_method = ''get'',
               op_parameters = Some [\<lparr> param_name = ''city'', param_in = ''query'' \<rparr>,
                                     \<lparr> param_name = ''X-Key'', param_in = ''header'' \<rparr>] \<rparr>"
  by (simp_all add: pl0_def call0_def weather_def pluginId_of_def operationId_of_def
        server_baseUrl_def findOperationById_def)

text \<open>
  A handler that was started and is resumed does what the handler run from its start to
  its end does.
\<close>

lemma handleFunctionCall_resumes:
  assumes "dispatch_call_post ext st pl call s = Inr (ph, token, payload, s1)"
  shows "handleFunctionCall ext w st pl (call # rest) s
           = handleFunctionCall_resume ext w st pl (call, ph, token, payload, rest) s1"
    and "handleFunctionCall_start ext st pl (call # rest) s
           = s1\<lparr> dispatching := dispatching s1 @ [(call, ph, token, payload, rest)] \<rparr>"
  using assms
  by (simp_all add: dispatch_call_def handleFunctionCall_resume_def handleFunctionCall_start_def)

text \<open>
  The round of a call whose carrying turn completes while the payload is awaited: the
  model message of that turn, with its empty text, stands between the call record and
  the response, in the history and in the follow-up request.
\<close>

lemma dispatch_call_during_carrying_turn:
  "messages (snd (dispatch_call ext0 w_busy st0 pl0 call0 s_empty))
     = [\<lparr> msg_id = ''id1'', role = Model, parts = [PFunctionCall call0], attachments = None \<rparr>,
        \<lparr> msg_id = ''carrying'', role = Model, parts = [PText []], attachments = None \<rparr>,
        \<lparr> msg_id = ''id2'', role = Function,
          parts = [PFunctionResponse ''weather_get'' ''weather_get'' (JStr ''sunny'')],
          attachments = None \<rparr>,
        \<lparr> msg_id = ''id0'', role = Model, parts = [PText []], attachments = None \<rparr>]"
  "map req_messages (requests (events (snd (dispatch_call ext0 w_busy st0 pl0 call0 s_empty))))
     = [[\<lparr> msg_id = ''id1'', role = Model, parts = [PFunctionCall call0], attachments = None \<rparr>,
         \<lparr> msg_id = ''carrying'', role = Model, parts = [PText []], attachments = None \<rparr>,
         \<lparr> msg_id = ''id2'', role = Function,
           parts = [PFunctionResponse ''weather_get'' ''weather_get'' (JStr ''sunny'')],
           attachments = None \<rparr>]]"
  using call0_resolves(1,2,4)
  by (simp_all add: dispatch_call_def dispatch_call_post_def dispatch_call_resume_def
        dispatch_call_respond_def answer_read_def await_others_def nanoid_def addMessage_def
        fetchAnswer_def fetchAnswer_config_def handleResponse_start_def Let_def
        w_busy_def w0_def s_empty_def ext0_def st0_def string_of_nat.simps call0_def)

text \<open>
  C6. When the plugin and the operation of a call resolve and the gateway answers, the
  round has written the call record and posted the payload before it waits. From the
  state \<open>h\<close> in which it finds the program when the answer is read, whatever the other
  handlers have done to the history meanwhile, it adds the answer as a function-role
  message, adds the empty model-role placeholder, and then asks the model for the
  follow-up turn: the messages of that request, with the placeholder put back at their
  end, are the history at that moment. Nothing written or requested follows in the round.
\<close>

theorem dispatch_call_follow_up:
  assumes "installed pl (pluginId_of call) = Some pm"
    and "server_baseUrl (openapi pm) = Inr base"
    and "findOperationById (openapi pm) (operationId_of call) = Some operation"
    and "gateway w (clock s) (encodeToken ext (password st))
           (build_payload base operation (call_args call)) = Responded c"
  shows "\<exists>cr ph s1 h fr cfg rest s'.
           dispatch_call_post ext st pl call s
             = Inr (ph, encodeToken ext (password st),
                    build_payload base operation (call_args call), s1)
         \<and> events s1 = events s @ [Added cr,
               GatewayCall (encodeToken ext (password st))
                 (build_payload base operation (call_args call))]
         \<and> h = answer_read ext w s1
         \<and> dispatch_call ext w st pl call s = (Continue, s')
         \<and> events s' = events h @ [Added fr, Added ph, ChatCall cfg] @ rest
         \<and> added rest = [] \<and> requests rest = [] \<and> posted rest = []
         \<and> role cr = Model \<and> parts cr = [PFunctionCall call]
         \<and> role fr = Function
         \<and> parts fr = [PFunctionResponse (call_name call) (call_name call) c]
         \<and> role ph = Model \<and> parts ph = [PText []]
         \<and> req_messages cfg @ [ph] = messages h @ [fr, ph]"
proof -
  define cr where "cr = \<lparr> msg_id = nanoid_at ext (Suc (seed s)), role = Model,
                 parts = [PFunctionCall call], attachments = None \<rparr>"
  define ph where "ph = \<lparr> msg_id = nanoid_at ext (seed s), role = Model, parts = [PText []],
                 attachments = None \<rparr>"
  obtain s1 h i fr cfg rest s' where
    "dispatch_call_post ext st pl call s
             = Inr (ph, encodeToken ext (password st),
                    build_payload base operation (call_args call), s1)"
    "events s1 = events s @ [Added cr,
               GatewayCall (encodeToken ext (password st))
                 (build_payload base operation (call_args call))]"
    "h = answer_read ext w s1"
    and fr: "fr = \<lparr> msg_id = i, role = Function,
                    parts = [PFunctionResponse (call_name call) (call_name call) c],
                    attachments = None \<rparr>"
    and "dispatch_call ext w st pl call s = (Continue, s')"
    "events s' = events h @ [Added fr, Added ph, ChatCall cfg] @ rest"
    "added rest = []" "requests rest = []" "posted rest = []"
    and req: "req_messages cfg = messages h @ [fr]"
    using dispatch_call_responded[OF assms cr_def ph_def] by blast
  moreover have "role cr = Model" "parts cr = [PFunctionCall call]" "role fr = Function"
    "parts fr = [PFunctionResponse (call_name call) (call_name call) c]"
    "role ph = Model" "parts ph = [PText []]"
    by (simp_all add: cr_def fr ph_def)
  moreover have "req_messages cfg @ [ph] = messages h @ [fr, ph]"
    by (simp add: req)
  ultimately show ?thesis by blast
qed

theorem dispatch_call_follow_up_witness:
  "installed pl0 (pluginId_of call0) = Some weather
   \<and> server_baseUrl (openapi weather) = Inr ''https://w.example''
   \<and> gateway w_busy (clock s_empty) (encodeToken ext0 (password st0))
        (build_payload ''https://w.example''
           \<lparr> op_path = ''/now'', op_method = ''get'',
             op_parameters = Some [\<lparr> param_name = ''city'', param_in = ''query'' \<rparr>,
                                   \<lparr> param_name = ''X-Key'', param_in = ''header'' \<rparr>] \<rparr>
           (call_args call0)) = Responded (JStr ''sunny'')
   \<and> (\<exists>cr ph s1 h fr cfg rest s'.
           dispatch_call_post ext0 st0 pl0 call0 s_empty
             = Inr (ph, encodeToken ext0 (password st0),
                    build_payload ''https://w.example''
                      \<lparr> op_path = ''/now'', op_method = ''get'',
                        op_parameters = Some [\<lparr> param_name = ''city'', param_in = ''query'' \<rparr>,
                                   \<lparr> param_name = ''X-Key'', param_in = ''header'' \<rparr>] \<rparr>
                      (call_args call0), s1)
         \<and> events s1 = events s_empty @ [Added cr,
               GatewayCall (encodeToken ext0 (password st0))
                 (build_payload ''https://w.example''
                    \<lparr> op_path = ''/now'', op_method = ''get'',
                      op_parameters = Some [\<lparr> param_name = ''city'', param_in = ''query'' \<rparr>,
                                   \<lparr> param_name = ''X-Key'', param_in = ''header'' \<rparr>] \<rparr>
                    (call_args call0))]
         \<and> h = answer_read ext0 w_busy s1
         \<and> dispatch_call ext0 w_busy st0 pl0 call0 s_empty = (Continue, s')
         \<and> events s' = events h @ [Added fr, Added ph, ChatCall cfg] @ rest
         \<and> added rest = [] \<and> requests rest = [] \<and> posted rest = []
         \<and> role cr = Model \<and> parts cr = [PFunctionCall call0]
         \<and> role fr = Function
         \<and> parts fr = [PFunctionResponse (call_name call0) (call_name call0) (JStr ''sunny'')]
         \<and> role ph = Model \<and> parts ph = [PText []]
         \<and> req_messages cfg @ [ph] = messages h @ [fr, ph])"
proof -
  have g: "gateway w_busy (clock s_empty) (encodeToken ext0 (password st0))
        (build_payload ''https://w.example''
           \<lparr> op_path = ''/now'', op_method = ''get'',
             op_parameters = Some [\<lparr> param_name = ''city'', param_in = ''query'' \<rparr>,
                                   \<lparr> param_name = ''X-Key'', param_in = ''header'' \<rparr>] \<rparr>
           (call_args call0)) = Responded (JStr ''sunny'')"
    by (simp add: w_busy_def w0_def)
  show ?thesis
    using dispatch_call_follow_up[OF call0_resolves(1,2,4) g]
      call0_resolves(1,2) g by blast
qed

text \<open>
  At two inputs the history after a batch of one call holds less than a call record, a
  response and a placeholder, though the plugin is installed, the operation exists and
  the gateway answers whatever is posted: when the plugin's list of servers is empty,
  the handler throws after the call record; when the follow-up request is refused, the
  error path revokes the placeholder.
\<close>

theorem handleFunctionCall_batch_counterexample:
  "(installed pl_noservers (pluginId_of call0)
      = Some \<lparr> openapi = (openapi weather)\<lparr> servers := Some [] \<rparr> \<rparr>
    \<and> findOperationById ((openapi weather)\<lparr> servers := Some [] \<rparr>) (operationId_of call0)
      = findOperationById (openapi weather) (operationId_of call0)
    \<and> fst (handleFunctionCall ext0 w0 st0 pl_noservers [call0] s_empty) = Throw TypeError
    \<and> map shape (messages (snd (handleFunctionCall ext0 w0 st0 pl_noservers [call0] s_empty)))
      = [CallRecord call0]
    \<and> map shape (added (events (snd (handleFunctionCall ext0 w0 st0 pl_noservers [call0]
                                      s_empty))))
      = [CallRecord call0])
   \<and> (fst (handleFunctionCall ext0 w_refuse st0 pl0 [call0] s_empty) = Return
    \<and> map shape (messages (snd (handleFunctionCall ext0 w_refuse st0 pl0 [call0] s_empty)))
      = [CallRecord call0, ResponseRecord ''weather_get''])"
proof -
  have a: "installed pl_noservers (pluginId_of call0)
      = Some \<lparr> openapi = (openapi weather)\<lparr> servers := Some [] \<rparr> \<rparr>"
    by (simp add: pl_noservers_def call0_def pluginId_of_def)
  have b: "findOperationById ((openapi weather)\<lparr> servers := Some [] \<rparr>) (operationId_of call0)
      = findOperationById (openapi weather) (operationId_of call0)"
    by (simp add: findOperationById_def)
  have c: "handleFunctionCall ext0 w0 st0 pl_noservers [call0] s_empty
      = (Throw TypeError,
         s_empty\<lparr> seed := 2,
           messages := [\<lparr> msg_id = ''id1'', role = Model, parts = [PFunctionCall call0],
                          attachments = None \<rparr>],
           events := [Added \<lparr> msg_id = ''id1'', role = Model, parts = [PFunctionCall call0],
                               attachments = None \<rparr>] \<rparr>)"
    using a
    by (simp add: dispatch_call_def dispatch_call_post_def nanoid_def addMessage_def Let_def
          server_baseUrl_def s_empty_def ext0_def string_of_nat.simps numeral_2_eq_2)
  have d: "fst (handleFunctionCall ext0 w_refuse st0 pl0 [call0] s_empty) = Return"
    "messages (snd (handleFunctionCall ext0 w_refuse st0 pl0 [call0] s_empty))
       = [\<lparr> msg_id = ''id1'', role = Model, parts = [PFunctionCall call0], attachments = None \<rparr>,
          \<lparr> msg_id = ''id2'', role = Function,
            parts = [PFunctionResponse ''weather_get'' ''weather_get'' (JStr ''sunny'')],
            attachments = None \<rparr>]"
    using call0_resolves(1,2,4)
    by (simp_all add: dispatch_call_def dispatch_call_post_def dispatch_call_resume_def
          dispatch_call_respond_def answer_read_def await_others_def nanoid_def addMessage_def
          fetchAnswer_def fetchAnswer_config_def handleError_def revoke_def Let_def
          w_refuse_def w0_def s_empty_def ext0_def st0_def string_of_nat.simps call0_def)
  show ?thesis
    using a b by (simp add: c d shape_def del: handleFunctionCall.simps)
qed

text \<open>
  C1. For a batch of calls that all name an installed plugin (whose server list, when it
  has one, is not empty) and an operation of it, with a gateway that answers every post,
  the handler runs the calls one after the other to its normal end: for each call, in
  call order, it writes the call record, posts to the gateway, writes the function-role
  response and the empty model-role placeholder, and asks for the follow-up turn. The
  messages it hands to the store are thus exactly one call record, one response and one
  placeholder per call, in call order, whatever the other handlers do meanwhile. When
  no other handler acts meanwhile and no follow-up request is refused with an error,
  these messages are what the batch has appended to the history.
\<close>

theorem handleFunctionCall_batch:
  assumes "\<forall>call \<in> set calls. \<exists>pm operation.
              installed pl (pluginId_of call) = Some pm
              \<and> servers (openapi pm) \<noteq> Some []
              \<and> findOperationById (openapi pm) (operationId_of call) = Some operation"
    and "\<forall>n token payload. \<exists>c. gateway w n token payload = Responded c"
  shows "\<exists>s' new. handleFunctionCall ext w st pl calls s = (Return, s')
           \<and> events s' = events s @ new
           \<and> steps new = concat (map (\<lambda>c. [Wrote (CallRecord c), Posted,
                                           Wrote (ResponseRecord (call_name c)),
                                           Wrote Placeholder, Asked]) calls)
           \<and> map shape (added new)
               = concat (map (\<lambda>c. [CallRecord c, ResponseRecord (call_name c), Placeholder]) calls)
           \<and> ((\<forall>n cfg m. chat w n cfg \<noteq> ChatThrows (ErrorObj m))
               \<and> (\<forall>n. meanwhile w n = (\<lambda>s. s))
                \<longrightarrow> messages s' = messages s @ added new)"
  using assms(1)
proof (induction calls arbitrary: s)
  case Nil
  then show ?case by simp
next
  case (Cons call calls)
  from Cons.prems obtain pm operation where pm: "installed pl (pluginId_of call) = Some pm"
    and sv: "servers (openapi pm) \<noteq> Some []"
    and op: "findOperationById (openapi pm) (operationId_of call) = Some operation"
    by auto
  from sv have "\<exists>base. server_baseUrl (openapi pm) = Inr base"
    by (cases "servers (openapi pm)"; cases "the (servers (openapi pm))")
       (simp_all add: server_baseUrl_def)
  then obtain base where base: "server_baseUrl (openapi pm) = Inr base" ..
  let ?tok = "encodeToken ext (password st)"
  let ?payload = "build_payload base operation (call_args call)"
  from assms(2) obtain c where c: "gateway w (clock s) ?tok ?payload = Responded c"
    by blast
  define cr where "cr = \<lparr> msg_id = nanoid_at ext (Suc (seed s)), role = Model,
                 parts = [PFunctionCall call], attachments = None \<rparr>"
  define ph where "ph = \<lparr> msg_id = nanoid_at ext (seed s), role = Model, parts = [PText []],
                 attachments = None \<rparr>"
  obtain s1 h i fr cfg rest s2 where
    ev1: "events s1 = events s @ [Added cr, GatewayCall ?tok ?payload]"
    and ms1: "messages s1 = messages s @ [cr]"
    and h: "h = answer_read ext w s1"
    and fr: "fr = \<lparr> msg_id = i, role = Function,
                    parts = [PFunctionResponse (call_name call) (call_name call) c],
                    attachments = None \<rparr>"
    and run1: "dispatch_call ext w st pl call s = (Continue, s2)"
    and ev2: "events s2 = events h @ [Added fr, Added ph, ChatCall cfg] @ rest"
    and silent: "added rest = []" "requests rest = []" "posted rest = []"
    and ms2: "(\<forall>n m. chat w n cfg \<noteq> ChatThrows (ErrorObj m))
              \<and> (\<forall>n. meanwhile w n = (\<lambda>s. s))
              \<longrightarrow> messages s2 = messages h @ [fr, ph]"
    using dispatch_call_responded[OF pm base op c cr_def ph_def] by blast
  have evh: "events h = events s1"
    by (simp add: h answer_read_effect(1))
  have shapes: "shape cr = CallRecord call" "shape fr = ResponseRecord (call_name call)"
      "shape ph = Placeholder"
    by (simp_all add: shape_def cr_def fr ph_def)
  from Cons.prems have "\<forall>call \<in> set calls. \<exists>pm operation.
              installed pl (pluginId_of call) = Some pm
              \<and> servers (openapi pm) \<noteq> Some []
              \<and> findOperationById (openapi pm) (operationId_of call) = Some operation"
    by simp
  from Cons.IH[OF this, of s2] obtain s' new where
    run: "handleFunctionCall ext w st pl calls s2 = (Return, s')"
    and ev: "events s' = events s2 @ new"
    and st: "steps new = concat (map (\<lambda>c. [Wrote (CallRecord c), Posted,
                                           Wrote (ResponseRecord (call_name c)),
                                           Wrote Placeholder, Asked]) calls)"
    and sh: "map shape (added new)
               = concat (map (\<lambda>c. [CallRecord c, ResponseRecord (call_name c), Placeholder]) calls)"
    and ms: "(\<forall>n cfg m. chat w n cfg \<noteq> ChatThrows (ErrorObj m))
               \<and> (\<forall>n. meanwhile w n = (\<lambda>s. s))
                \<longrightarrow> messages s' = messages s2 @ added new"
    by blast
  let ?new = "[Added cr, GatewayCall ?tok ?payload, Added fr, Added ph, ChatCall cfg]
               @ rest @ new"
  have "handleFunctionCall ext w st pl (call # calls) s = (Return, s')"
    using run1 run by simp
  moreover have "events s' = events s @ ?new"
    using ev ev1 ev2 evh by simp
  moreover have "steps ?new = concat (map (\<lambda>c. [Wrote (CallRecord c), Posted,
                                           Wrote (ResponseRecord (call_name c)),
                                           Wrote Placeholder, Asked]) (call # calls))"
    using st shapes steps_silent[OF silent] by simp
  moreover have "map shape (added ?new)
               = concat (map (\<lambda>c. [CallRecord c, ResponseRecord (call_name c), Placeholder])
                          (call # calls))"
    using sh shapes silent by simp
  moreover have "(\<forall>n cfg m. chat w n cfg \<noteq> ChatThrows (ErrorObj m))
               \<and> (\<forall>n. meanwhile w n = (\<lambda>s. s))
                \<longrightarrow> messages s' = messages s @ added ?new"
  proof
    assume quiet: "(\<forall>n cfg m. chat w n cfg \<noteq> ChatThrows (ErrorObj m))
               \<and> (\<forall>n. meanwhile w n = (\<lambda>s. s))"
    then have "messages h = messages s @ [cr]"
      using answer_read_effect(3)[of w ext s1] by (simp add: h ms1)
    then show "messages s' = messages s @ added ?new"
      using quiet ms ms2 silent by simp
  qed
  ultimately show ?case by blast
qed

theorem handleFunctionCall_batch_witness:
  "(\<exists>pm operation.
              installed pl0 (pluginId_of call0) = Some pm
              \<and> servers (openapi pm) \<noteq> Some []
              \<and> findOperationById (openapi pm) (operationId_of call0) = Some operation)
   \<and> (\<forall>n token payload. \<exists>c. gateway w0 n token payload = Responded c)
   \<and> (\<forall>n cfg m. chat w0 n cfg \<noteq> ChatThrows (ErrorObj m))
   \<and> (\<forall>n. meanwhile w0 n = (\<lambda>s. s))
   \<and> (\<exists>s' new. handleFunctionCall ext0 w0 st0 pl0 [call0, call0] s_empty = (Return, s')
           \<and> events s' = events s_empty @ new
           \<and> steps new = [Wrote (CallRecord call0), Posted, Wrote (ResponseRecord ''weather_get''),
                           Wrote Placeholder, Asked,
                           Wrote (CallRecord call0), Posted, Wrote (ResponseRecord ''weather_get''),
                           Wrote Placeholder, Asked]
           \<and> map shape (added new)
               = [CallRecord call0, ResponseRecord ''weather_get'', Placeholder,
                  CallRecord call0, ResponseRecord ''weather_get'', Placeholder]
           \<and> messages s' = messages s_empty @ added new)"
proof -
  have v: "\<forall>call \<in> set [call0, call0]. \<exists>pm operation.
              installed pl0 (pluginId_of call) = Some pm
              \<and> servers (openapi pm) \<noteq> Some []
              \<and> findOperationById (openapi pm) (operationId_of call) = Some operation"
    using call0_resolves by simp
  have g: "\<forall>n token payload. \<exists>c. gateway w0 n token payload = Responded c"
    by (simp add: w0_def)
  have c: "\<forall>n cfg m. chat w0 n cfg \<noteq> ChatThrows (ErrorObj m)"
    by (simp add: w0_def)
  have q: "\<forall>n. meanwhile w0 n = (\<lambda>s. s)"
    by (simp add: w0_def)
  have n: "call_name call0 = ''weather_get''"
    by (simp add: call0_def)
  show ?thesis
    using handleFunctionCall_batch[OF v g, where ext = ext0 and st = st0 and s = s_empty]
      v g c q n by auto
qed

text \<open>
  The name of a call is its plugin id, the separator, and its operation id; and a call
  to an operation that the manifest lacks ends the handler with the error reported.
\<close>

lemma split_at_underscore:
  "CHR ''_'' \<in> set n \<Longrightarrow>
     n = takeWhile (\<lambda>c. c \<noteq> CHR ''_'') n
         @ CHR ''_'' # drop (1 + length (takeWhile (\<lambda>c. c \<noteq> CHR ''_'') n)) n"
  by (induction n) auto

lemma call_name_split:
  "CHR ''_'' \<in> set (call_name call) \<Longrightarrow>
     call_name call = pluginId_of call @ CHR ''_'' # operationId_of call
     \<and> CHR ''_'' \<notin> set (pluginId_of call)"
  using split_at_underscore[of "call_name call"]
  by (auto simp: pluginId_of_def operationId_of_def dest: set_takeWhileD)

lemma dispatch_call_missing_operation:
  assumes "installed pl (pluginId_of call) = Some pm"
    and "server_baseUrl (openapi pm) = Inr base"
    and "findOperationById (openapi pm) (operationId_of call) = None"
  shows "fst (dispatch_call ext w st pl call s) = Return"
    and "errorMessage (snd (dispatch_call ext w st pl call s))
           = ''400: FunctionCall execution failed!''"
    and "posted (events (snd (dispatch_call ext w st pl call s))) = posted (events s)"
    and "requests (events (snd (dispatch_call ext w st pl call s))) = requests (events s)"
  using assms
  by (simp_all add: dispatch_call_def dispatch_call_post_def nanoid_def addMessage_def Let_def
        handleError_def revoke_def)


text \<open>
  A plugin that is not installed, or one whose server list is an empty array, makes the
  round throw before anything is posted or reported.
\<close>

lemma absent_manifest_throws:
  assumes "installed pl (pluginId_of call) = None"
  shows "fst (dispatch_call ext w st pl call s) = Throw TypeError"
    and "errorMessage (snd (dispatch_call ext w st pl call s)) = errorMessage s"
    and "posted (events (snd (dispatch_call ext w st pl call s))) = posted (events s)"
  using assms
  by (simp_all add: dispatch_call_def dispatch_call_post_def nanoid_def addMessage_def Let_def)

lemma empty_servers_throws:
  assumes "installed pl (pluginId_of call) = Some pm" and "servers (openapi pm) = Some []"
  shows "fst (dispatch_call ext w st pl call s) = Throw TypeError"
  using assms
  by (simp add: dispatch_call_def dispatch_call_post_def nanoid_def addMessage_def Let_def
        server_baseUrl_def)

text \<open>
  C4. A call that names a plugin that is not installed: the round reads \<open>openapi\<close> of
  \<open>undefined\<close> and throws a \<open>TypeError\<close>. The call record has been written, no
  error message is set, and nothing reports the failure.
\<close>

theorem dispatch_call_missing_manifest_throws:
  "installed (pl0\<lparr> installed := Map.empty \<rparr>) (pluginId_of call0) = None
   \<and> fst (dispatch_call ext0 w0 st0 (pl0\<lparr> installed := Map.empty \<rparr>) call0 s_empty)
       = Throw TypeError
   \<and> errorMessage (snd (dispatch_call ext0 w0 st0 (pl0\<lparr> installed := Map.empty \<rparr>) call0 s_empty))
       = []
   \<and> events (snd (dispatch_call ext0 w0 st0 (pl0\<lparr> installed := Map.empty \<rparr>) call0 s_empty))
       = [Added \<lparr> msg_id = ''id1'', role = Model, parts = [PFunctionCall call0],
                  attachments = None \<rparr>]"
  by (simp add: dispatch_call_def dispatch_call_post_def nanoid_def addMessage_def pl0_def
        s_empty_def ext0_def Let_def string_of_nat.simps)


text \<open>
  An argument that no declared parameter names leaves the five maps as they are, and an
  argument named by a parameter declared in \<open>query\<close> is in the query map.
\<close>

lemma place_unmatched:
  "\<forall>p \<in> set ps. param_name p \<noteq> name \<Longrightarrow> fold (place name v) ps m = m"
  by (induction ps arbitrary: m) (auto simp: place_def)

lemma classify_args_unmatched:
  "\<forall>p \<in> set ps. param_name p \<noteq> name \<Longrightarrow>
     classify_args (Some ps) (args @ [(name, v)]) = classify_args (Some ps) args"
  by (simp add: classify_args_def place_unmatched)

lemma place_query_kept:
  "map_of (query_map m) name = Some v \<Longrightarrow>
     map_of (query_map (fold (place name v) ps m)) name = Some v"
  by (induction ps arbitrary: m) (auto simp: place_def update_conv')

lemma place_query:
  "\<lparr> param_name = name, param_in = ''query'' \<rparr> \<in> set ps \<Longrightarrow>
     map_of (query_map (fold (place name v) ps m)) name = Some v"
proof (induction ps arbitrary: m)
  case Nil
  then show ?case by simp
next
  case (Cons p ps)
  show ?case
  proof (cases "p = \<lparr> param_name = name, param_in = ''query'' \<rparr>")
    case True
    then have "map_of (query_map (place name v p m)) name = Some v"
      by (simp add: place_def update_conv')
    then show ?thesis
      by (simp add: place_query_kept)
  next
    case False
    with Cons show ?thesis by simp
  qed
qed


lemma place_other_name:
  "name' \<noteq> name \<Longrightarrow>
     map_of (query_map (fold (place name' v') ps m)) name = map_of (query_map m) name"
  by (induction ps arbitrary: m) (auto simp: place_def update_conv')

lemma classify_query_kept:
  "name \<notin> fst ` set args \<Longrightarrow>
     map_of (query_map (fold (\<lambda>(name, v) m. fold (place name v) ps m) args m)) name
       = map_of (query_map m) name"
  by (induction args arbitrary: m) (auto simp: place_other_name)

lemma classify_args_query:
  assumes "distinct (map fst args)" and "(name, v) \<in> set args"
    and "\<lparr> param_name = name, param_in = ''query'' \<rparr> \<in> set ps"
  shows "map_of (query_map (classify_args (Some ps) args)) name = Some v"
proof -
  have "map_of (query_map (fold (\<lambda>(name, v) m. fold (place name v) ps m) args m)) name = Some v"
    for m
    using assms(1,2)
  proof (induction args arbitrary: m)
    case Nil
    then show ?case by simp
  next
    case (Cons a args)
    show ?case
    proof (cases "a = (name, v)")
      case True
      with Cons.prems have "name \<notin> fst ` set args" by auto
      then show ?thesis
        using True place_query[OF assms(3)] by (simp add: classify_query_kept)
    next
      case False
      with Cons show ?thesis by (cases a) auto
    qed
  qed
  then show ?thesis
    by (simp add: classify_args_def)
qed

text \<open>
  C5. An argument named by a parameter that the operation declares in \<open>header\<close>, the
  location of OpenAPI: the loop compares the location with \<open>headers\<close>, so the argument
  is in no map of the payload.
\<close>

theorem build_payload_header_dropped:
  "build_payload ''https://w.example''
     \<lparr> op_path = ''/now'', op_method = ''get'',
       op_parameters = Some [\<lparr> param_name = ''X-Key'', param_in = ''header'' \<rparr>] \<rparr>
     [(''X-Key'', JStr ''k'')]
   = \<lparr> baseUrl = ''https://w.example/now'', http_method = ''get'', formData = None,
       headers = None, path = None, query = None, cookie = None \<rparr>"
  by (simp add: build_payload_def classify_args_def place_def empty_maps_def nonEmpty_def)


section \<open>Stopping speech\<close>

text \<open>
  A task that runs with the flag raised rejects, and still synthesizes and plays when the
  synthesizer yields a voice.
\<close>

lemma rejected_task_goes_on:
  assumes "edgeSpeech dev = Some create" and "create t (ttsVoice st) = Some buf"
    and "audioStream dev"
  shows "fst (speech_task dev st True t s) = Some Rejected"
    and "SpeechCreate t (ttsVoice st) \<in> set (events (snd (speech_task dev st True t s)))"
    and "AudioPlay buf t \<in> set (events (snd (speech_task dev st True t s)))"
    and "audio (snd (speech_task dev st True t s)) = Some (buf, t)"
  using assms by (simp_all add: speech_task_def settle_def Let_def)

text \<open>
  C3. After stop-talking has raised the silence flag and drained the queue, a speech task
  that sees the flag raised rejects its promise and then goes on: it asks for the
  synthesis and starts the playback.
\<close>

theorem speech_task_silenced_still_plays:
  "speechSilence (handleStopTalking s_empty)
   \<and> speechQueue (handleStopTalking (s_empty\<lparr> speechQueue := Some [''hi''] \<rparr>)) = Some []
   \<and> fst (speech_task dev0 st0 (speechSilence (handleStopTalking s_empty)) ''hi''
            (handleStopTalking s_empty)) = Some Rejected
   \<and> events (snd (speech_task dev0 st0 (speechSilence (handleStopTalking s_empty)) ''hi''
                    (handleStopTalking s_empty)))
       = [SpeechCreate ''hi'' ''en-US'', AudioPlay [1, 2, 3] ''hi'']
   \<and> audio (snd (speech_task dev0 st0 (speechSilence (handleStopTalking s_empty)) ''hi''
                   (handleStopTalking s_empty)))
       = Some ([1, 2, 3], ''hi'')"
  by (simp add: speech_task_def handleStopTalking_def dev0_def st0_def s_empty_def settle_def
        Let_def)


section \<open>The record of events only grows\<close>

lemma extends_refl: "extends s s"
  by (simp add: extends_def)

lemma extends_trans: "extends s s' \<Longrightarrow> extends s' s'' \<Longrightarrow> extends s s''"
  by (auto simp: extends_def)

lemma handleError_extends: "extends b s \<Longrightarrow> extends b (handleError m c s)"
  by (cases "messages s") (auto simp: handleError_def revoke_def Let_def extends_def)

lemma await_others_extends: "extends b s \<Longrightarrow> extends b (await_others w s)"
  by (simp add: extends_def await_others_effect(1))

lemma dispatch_call_post_extends:
  "case dispatch_call_post ext st pl call s of
     Inl (over, s') \<Rightarrow> extends s s'
   | Inr (ph, token, payload, s') \<Rightarrow> extends s s'"
proof -
  let ?cr = "\<lparr> msg_id = nanoid_at ext (Suc (seed s)), role = Model,
                 parts = [PFunctionCall call], attachments = None \<rparr>"
  let ?s2 = "s\<lparr> seed := Suc (Suc (seed s)), messages := messages s @ [?cr],
                events := events s @ [Added ?cr] \<rparr>"
  have s2: "extends s ?s2"
    by (simp add: extends_def)
  show ?thesis
  proof (cases "installed pl (pluginId_of call)")
    case None
    then show ?thesis
      using s2 by (simp add: dispatch_call_post_def nanoid_def addMessage_def Let_def)
  next
    case (Some pm)
    show ?thesis
    proof (cases "server_baseUrl (openapi pm)")
      case (Inl err)
      with Some show ?thesis
        using s2 by (simp add: dispatch_call_post_def nanoid_def addMessage_def Let_def)
    next
      case (Inr base)
      show ?thesis
      proof (cases "findOperationById (openapi pm) (operationId_of call)")
        case None
        with Some Inr show ?thesis
          using handleError_extends[OF s2]
          by (simp add: dispatch_call_post_def nanoid_def addMessage_def Let_def)
      next
        case (Some operation)
        with \<open>installed pl (pluginId_of call) = Some pm\<close> Inr show ?thesis
          by (simp add: dispatch_call_post_def nanoid_def addMessage_def Let_def extends_def)
      qed
    qed
  qed
qed

lemma handleFunctionCall_start_extends:
  "extends s (handleFunctionCall_start ext st pl calls s)"
proof (cases calls)
  case Nil
  then show ?thesis
    by (simp add: handleFunctionCall_start_def extends_refl)
next
  case (Cons call rest)
  then show ?thesis
    using dispatch_call_post_extends[where ext = ext and st = st and pl = pl and call = call
            and s = s]
    by (auto simp: handleFunctionCall_start_def extends_def split: sum.splits prod.splits)
qed

lemma fold_extends:
  assumes "\<And>x s. extends s (f x s)"
  shows "extends s (fold f xs s)"
proof (induction xs arbitrary: s)
  case Nil
  then show ?case by (simp add: extends_refl)
next
  case (Cons x xs)
  show ?case
    using assms[of s x] Cons.IH[of "f x s"] by (auto intro: extends_trans)
qed

lemma fetchAnswer_top_request:
  "\<exists>rest. events (fetchAnswer ext w st pl msgs mdl handleResponse_start
                     (Some (onFunctionCall_cb ext w st pl)) (Some handleError) s)
     = events s @ ChatCall (fetchAnswer_config ext st pl (systemInstruction s) msgs mdl) # rest"
proof -
  let ?cfg = "fetchAnswer_config ext st pl (systemInstruction s) msgs mdl"
  let ?s0 = "s\<lparr> errorMessage := [], events := events s @ [ChatCall ?cfg] \<rparr>"
  let ?s1 = "await_others w ?s0"
  have s1: "extends ?s0 ?s1"
    by (simp add: await_others_extends extends_refl)
  have "extends ?s0 (fetchAnswer ext w st pl msgs mdl handleResponse_start
                     (Some (onFunctionCall_cb ext w st pl)) (Some handleError) s)"
  proof (cases "chat w (clock s) ?cfg")
    case (ChatStream chunks)
    have "extends ?s1 (handleResponse_start (enqueued (start (encode ext) True chunks)) ?s1)"
      by (simp add: handleResponse_start_def extends_def)
    moreover have "\<And>x s. extends s (onFunctionCall_cb ext w st pl x (await_others w s))"
    proof -
      fix x s
      have "extends s (await_others w s)"
        by (rule await_others_extends[OF extends_refl])
      moreover have "extends (await_others w s)
                       (handleFunctionCall_start ext st pl x (await_others w s))"
        by (rule handleFunctionCall_start_extends)
      ultimately show "extends s (onFunctionCall_cb ext w st pl x (await_others w s))"
        unfolding onFunctionCall_cb_def by (rule extends_trans)
    qed
    ultimately show ?thesis
      using ChatStream s1
        fold_extends[of "\<lambda>calls s. onFunctionCall_cb ext w st pl calls (await_others w s)"]
      by (auto simp: fetchAnswer_def Let_def intro: extends_trans)
  next
    case (ChatThrows e)
    then show ?thesis
      using handleError_extends[OF s1] s1
      by (cases e) (simp_all add: fetchAnswer_def Let_def)
  qed
  then show ?thesis
    by (auto simp: extends_def)
qed

section \<open>Resubmitting\<close>

lemma findIndex_from_nth:
  "distinct (map msg_id ms) \<Longrightarrow> j < length ms \<Longrightarrow>
     findIndex_from k ms (msg_id (ms ! j)) = int (k + j)"
proof (induction ms arbitrary: k j)
  case Nil
  then show ?case by simp
next
  case (Cons m ms)
  show ?case
  proof (cases j)
    case 0
    then show ?thesis by simp
  next
    case (Suc j')
    with Cons.prems have "msg_id (ms ! j') \<noteq> msg_id m"
      by (metis Suc_less_eq distinct.simps(2) length_Cons list.simps(9) nth_map nth_mem length_map)
    with Cons Suc show ?thesis by simp
  qed
qed

lemma remove_id_nth:
  "distinct (map msg_id ms) \<Longrightarrow> j < length ms \<Longrightarrow>
     remove_id (msg_id (ms ! j)) ms = take j ms @ drop (Suc j) ms"
proof (induction ms arbitrary: j)
  case Nil
  then show ?case by simp
next
  case (Cons m ms)
  show ?case
  proof (cases j)
    case 0
    then show ?thesis by simp
  next
    case (Suc j')
    with Cons.prems have "msg_id (ms ! j') \<noteq> msg_id m"
      by (metis Suc_less_eq distinct.simps(2) length_Cons list.simps(9) nth_map nth_mem length_map)
    with Cons Suc show ?thesis by simp
  qed
qed

lemma handleResubmit_revoke_model:
  assumes "distinct (map msg_id (messages s))" and "k < length (messages s)"
    and "i = msg_id (messages s ! k)" and "i \<noteq> ''error''"
    and "role (messages s ! k) = Model"
  shows "handleResubmit_revoke i s = revoke i s"
    and "messages (handleResubmit_revoke i s) = take k (messages s) @ drop (Suc k) (messages s)"
  using assms findIndex_from_nth[of "messages s" k 0] remove_id_nth[of "messages s" k]
  by (simp_all add: handleResubmit_revoke_def findIndex_def Let_def revoke_def)

lemma handleResubmit_revoke_other:
  assumes "distinct (map msg_id (messages s))" and "k < length (messages s)"
    and "i = msg_id (messages s ! k)" and "i \<noteq> ''error''"
    and "role (messages s ! k) \<noteq> Model"
  shows "handleResubmit_revoke i s =
           (if Suc k < length (messages s) then revoke (msg_id (messages s ! Suc k)) s else s)"
    and "messages (handleResubmit_revoke i s)
           = take (Suc k) (messages s) @ drop (Suc (Suc k)) (messages s)"
  using assms findIndex_from_nth[of "messages s" k 0] remove_id_nth[of "messages s" "Suc k"]
  by (simp_all add: handleResubmit_revoke_def findIndex_def Let_def revoke_def)


text \<open>
  C2. In a history whose ids are distinct, resubmitting with the id of a message that is
  there (and is not the sentinel \<open>error\<close>): for a model-role message, exactly that
  message is revoked; for a user-role message, the message after it is revoked when
  there is one, and the user message stays where it is. The turn that follows is asked
  with the history that results.
\<close>

theorem handleResubmit_removes_target:
  assumes "distinct (map msg_id (messages s))" and "k < length (messages s)"
    and "i = msg_id (messages s ! k)" and "i \<noteq> ''error''"
  shows "(role (messages s ! k) = Model \<longrightarrow>
            messages (handleResubmit_revoke i s)
              = take k (messages s) @ drop (Suc k) (messages s)
            \<and> events (handleResubmit_revoke i s) = events s @ [Revoked i])
       \<and> (role (messages s ! k) = User \<longrightarrow>
            messages (handleResubmit_revoke i s)
              = take (Suc k) (messages s) @ drop (Suc (Suc k)) (messages s)
            \<and> messages (handleResubmit_revoke i s) ! k = messages s ! k
            \<and> events (handleResubmit_revoke i s)
              = events s @ (if Suc k < length (messages s)
                            then [Revoked (msg_id (messages s ! Suc k))] else []))
       \<and> (\<exists>cfg rest. events (handleResubmit ext w st pl i s)
                         = events (handleResubmit_revoke i s) @ ChatCall cfg # rest
                       \<and> req_messages cfg = messages (handleResubmit_revoke i s))"
proof (intro conjI impI)
  assume m: "role (messages s ! k) = Model"
  show "messages (handleResubmit_revoke i s) = take k (messages s) @ drop (Suc k) (messages s)"
    using handleResubmit_revoke_model(2)[OF assms m] .
  show "events (handleResubmit_revoke i s) = events s @ [Revoked i]"
    using handleResubmit_revoke_model(1)[OF assms m] by (simp add: revoke_def)
next
  assume u: "role (messages s ! k) = User"
  then have nm: "role (messages s ! k) \<noteq> Model" by simp
  show eq: "messages (handleResubmit_revoke i s)
              = take (Suc k) (messages s) @ drop (Suc (Suc k)) (messages s)"
    using handleResubmit_revoke_other(2)[OF assms nm] .
  show "messages (handleResubmit_revoke i s) ! k = messages s ! k"
    using assms(2) by (simp add: eq nth_append)
  show "events (handleResubmit_revoke i s)
              = events s @ (if Suc k < length (messages s)
                            then [Revoked (msg_id (messages s ! Suc k))] else [])"
    using handleResubmit_revoke_other(1)[OF assms nm] by (simp add: revoke_def)
next
  let ?s1 = "handleResubmit_revoke i s"
  obtain rest where "events (fetchAnswer ext w st pl (messages ?s1) (model st)
                       handleResponse_start (Some (onFunctionCall_cb ext w st pl))
                       (Some handleError) ?s1)
     = events ?s1 @ ChatCall (fetchAnswer_config ext st pl (systemInstruction ?s1)
                                (messages ?s1) (model st)) # rest"
    using fetchAnswer_top_request by blast
  then show "\<exists>cfg rest. events (handleResubmit ext w st pl i s)
                         = events ?s1 @ ChatCall cfg # rest
                       \<and> req_messages cfg = messages ?s1"
    by (auto simp: handleResubmit_def Let_def fetchAnswer_config_fields)
qed

theorem handleResubmit_removes_target_witness:
  "distinct (map msg_id (messages s_chat)) \<and> 1 < length (messages s_chat)
   \<and> ''bbbbbbbb'' = msg_id (messages s_chat ! 1) \<and> ''aaaaaaaa'' = msg_id (messages s_chat ! 0)
   \<and> role (messages s_chat ! 1) = Model \<and> role (messages s_chat ! 0) = User
   \<and> messages (handleResubmit_revoke ''bbbbbbbb'' s_chat)
       = [\<lparr> msg_id = ''aaaaaaaa'', role = User, parts = [PText ''hello''], attachments = None \<rparr>]
   \<and> events (handleResubmit_revoke ''bbbbbbbb'' s_chat) = [Revoked ''bbbbbbbb'']
   \<and> messages (handleResubmit_revoke ''aaaaaaaa'' s_chat)
       = [\<lparr> msg_id = ''aaaaaaaa'', role = User, parts = [PText ''hello''], attachments = None \<rparr>]
   \<and> events (handleResubmit_revoke ''aaaaaaaa'' s_chat) = [Revoked ''bbbbbbbb'']
   \<and> (\<exists>cfg rest. events (handleResubmit ext0 w0 st0 pl0 ''bbbbbbbb'' s_chat)
                         = events (handleResubmit_revoke ''bbbbbbbb'' s_chat) @ ChatCall cfg # rest
                       \<and> req_messages cfg = messages (handleResubmit_revoke ''bbbbbbbb'' s_chat))"
proof -
  have d: "distinct (map msg_id (messages s_chat))"
    by (simp add: s_chat_def s_empty_def)
  have l1: "1 < length (messages s_chat)" and l0: "0 < length (messages s_chat)"
    by (simp_all add: s_chat_def s_empty_def)
  have i1: "''bbbbbbbb'' = msg_id (messages s_chat ! 1)"
    and i0: "''aaaaaaaa'' = msg_id (messages s_chat ! 0)"
    by (simp_all add: s_chat_def s_empty_def)
  have r: "role (messages s_chat ! 1) = Model" "role (messages s_chat ! 0) = User"
    by (simp_all add: s_chat_def s_empty_def)
  have e: "''bbbbbbbb'' \<noteq> ''error''" "''aaaaaaaa'' \<noteq> ''error''"
    by simp_all
  have ev: "events s_chat = []" and ms: "messages s_chat =
      [\<lparr> msg_id = ''aaaaaaaa'', role = User, parts = [PText ''hello''], attachments = None \<rparr>,
       \<lparr> msg_id = ''bbbbbbbb'', role = Model, parts = [PText ''hi''], attachments = None \<rparr>]"
    by (simp_all add: s_chat_def s_empty_def)
  show ?thesis
    using handleResubmit_removes_target[OF d l1 i1 e(1), where ext = ext0 and w = w0
            and st = st0 and pl = pl0]
          handleResubmit_removes_target[OF d l0 i0 e(2), where ext = ext0 and w = w0
            and st = st0 and pl = pl0]
          d l1 r
    by (auto simp: ev ms)
qed


section \<open>Summarizing\<close>









end
